theory Spec2Isabelle
  imports Complex_Main "HOL-Library.Sublist"
begin

section \<open>JavaScript values as the program uses them\<close>

text \<open>
  The backend (\<^verbatim>\<open>backend/server.js\<close>) reads listings that the upstream provider sends as
  JSON. A field of a listing is modelled as an option: \<open>None\<close> when the key is missing or
  \<^verbatim>\<open>null\<close> (the code never tells the two apart: it tests fields by truthiness, by
  \<^verbatim>\<open>?.\<close> or by \<^verbatim>\<open>!== null && !== undefined\<close>), \<open>Some v\<close> when it holds a value of
  the type the data model gives it. Numbers are JSON numbers, read as reals (no NaN and no
  infinity can come out of JSON text of ordinary size). A string is a list of characters
  with code points 0 to 255, the Latin-1 part of Unicode, each one code unit of the
  JavaScript string; strings with other characters are outside the model.
  Truthiness is written out: a number is truthy when it is not 0, a string when it is not
  empty, an object or array always.
\<close>

definition truthyNum :: "real option \<Rightarrow> bool" where
  "truthyNum v = (case v of None \<Rightarrow> False | Some x \<Rightarrow> x \<noteq> 0)"

definition truthyStr :: "string option \<Rightarrow> bool" where
  "truthyStr v = (case v of None \<Rightarrow> False | Some s \<Rightarrow> s \<noteq> [])"

text \<open>\<^verbatim>\<open>a || b\<close> on two fields: \<open>a\<close> when it is truthy, else \<open>b\<close> whatever it is.\<close>

definition orNum :: "real option \<Rightarrow> real option \<Rightarrow> real option" where
  "orNum a b = (if truthyNum a then a else b)"

definition orStr :: "string option \<Rightarrow> string option \<Rightarrow> string option" where
  "orStr a b = (if truthyStr a then a else b)"

text \<open>
  Comparisons of numbers that may be NaN or \<^verbatim>\<open>undefined\<close> (\<open>None\<close>): any comparison with
  NaN is false. Every comparison of the program whose operand may be \<^verbatim>\<open>null\<close> is guarded
  by a truthiness test of that operand, so \<^verbatim>\<open>null\<close> never reaches one.
\<close>

definition numGe :: "real option \<Rightarrow> real option \<Rightarrow> bool" where
  "numGe a b = (case (a, b) of (Some x, Some y) \<Rightarrow> x \<ge> y | _ \<Rightarrow> False)"

definition numLe :: "real option \<Rightarrow> real option \<Rightarrow> bool" where
  "numLe a b = (case (a, b) of (Some x, Some y) \<Rightarrow> x \<le> y | _ \<Rightarrow> False)"

definition numLt :: "real option \<Rightarrow> real option \<Rightarrow> bool" where
  "numLt a b = (case (a, b) of (Some x, Some y) \<Rightarrow> x < y | _ \<Rightarrow> False)"

definition numGt :: "real option \<Rightarrow> real option \<Rightarrow> bool" where
  "numGt a b = (case (a, b) of (Some x, Some y) \<Rightarrow> x > y | _ \<Rightarrow> False)"

text \<open>\<^verbatim>\<open>obj?.field\<close>: \<^verbatim>\<open>undefined\<close> when the object is absent.\<close>

definition chain :: "'a option \<Rightarrow> ('a \<Rightarrow> 'b option) \<Rightarrow> 'b option" where
  "chain obj field = (case obj of None \<Rightarrow> None | Some x \<Rightarrow> field x)"

subsection \<open>Strings\<close>

text \<open>
  \<^verbatim>\<open>toLowerCase\<close>. Among the code points 0 to 255 the cased characters with a lower-case
  form are the letters A to Z and the letters U+00C0 to U+00DE without the multiplication
  sign U+00D7; each is 32 below its lower-case form. Every other character of the range is
  mapped to itself.
\<close>

definition toLowerChar :: "char \<Rightarrow> char" where
  "toLowerChar c =
    (if c = CHR ''A'' then CHR ''a'' else if c = CHR ''B'' then CHR ''b''
     else if c = CHR ''C'' then CHR ''c'' else if c = CHR ''D'' then CHR ''d''
     else if c = CHR ''E'' then CHR ''e'' else if c = CHR ''F'' then CHR ''f''
     else if c = CHR ''G'' then CHR ''g'' else if c = CHR ''H'' then CHR ''h''
     else if c = CHR ''I'' then CHR ''i'' else if c = CHR ''J'' then CHR ''j''
     else if c = CHR ''K'' then CHR ''k'' else if c = CHR ''L'' then CHR ''l''
     else if c = CHR ''M'' then CHR ''m'' else if c = CHR ''N'' then CHR ''n''
     else if c = CHR ''O'' then CHR ''o'' else if c = CHR ''P'' then CHR ''p''
     else if c = CHR ''Q'' then CHR ''q'' else if c = CHR ''R'' then CHR ''r''
     else if c = CHR ''S'' then CHR ''s'' else if c = CHR ''T'' then CHR ''t''
     else if c = CHR ''U'' then CHR ''u'' else if c = CHR ''V'' then CHR ''v''
     else if c = CHR ''W'' then CHR ''w'' else if c = CHR ''X'' then CHR ''x''
     else if c = CHR ''Y'' then CHR ''y'' else if c = CHR ''Z'' then CHR ''z''
     else if c = CHR 0xC0 then CHR 0xE0 else if c = CHR 0xC1 then CHR 0xE1
     else if c = CHR 0xC2 then CHR 0xE2 else if c = CHR 0xC3 then CHR 0xE3
     else if c = CHR 0xC4 then CHR 0xE4 else if c = CHR 0xC5 then CHR 0xE5
     else if c = CHR 0xC6 then CHR 0xE6 else if c = CHR 0xC7 then CHR 0xE7
     else if c = CHR 0xC8 then CHR 0xE8 else if c = CHR 0xC9 then CHR 0xE9
     else if c = CHR 0xCA then CHR 0xEA else if c = CHR 0xCB then CHR 0xEB
     else if c = CHR 0xCC then CHR 0xEC else if c = CHR 0xCD then CHR 0xED
     else if c = CHR 0xCE then CHR 0xEE else if c = CHR 0xCF then CHR 0xEF
     else if c = CHR 0xD0 then CHR 0xF0 else if c = CHR 0xD1 then CHR 0xF1
     else if c = CHR 0xD2 then CHR 0xF2 else if c = CHR 0xD3 then CHR 0xF3
     else if c = CHR 0xD4 then CHR 0xF4 else if c = CHR 0xD5 then CHR 0xF5
     else if c = CHR 0xD6 then CHR 0xF6 else if c = CHR 0xD8 then CHR 0xF8
     else if c = CHR 0xD9 then CHR 0xF9 else if c = CHR 0xDA then CHR 0xFA
     else if c = CHR 0xDB then CHR 0xFB else if c = CHR 0xDC then CHR 0xFC
     else if c = CHR 0xDD then CHR 0xFD else if c = CHR 0xDE then CHR 0xFE
     else c)"

definition toLowerCase :: "string \<Rightarrow> string" where
  "toLowerCase s = List.map toLowerChar s"

fun startsWith :: "string \<Rightarrow> string \<Rightarrow> bool" where
  "startsWith hay [] = True"
| "startsWith [] (n # ns) = False"
| "startsWith (h # hs) (n # ns) = (h = n \<and> startsWith hs ns)"

text \<open>\<^verbatim>\<open>hay.includes(needle)\<close>: the needle occurs somewhere in the haystack.\<close>

fun includesStr :: "string \<Rightarrow> string \<Rightarrow> bool" where
  "includesStr [] needle = (needle = [])"
| "includesStr (h # hs) needle = (startsWith (h # hs) needle \<or> includesStr hs needle)"

text \<open>\<^verbatim>\<open>parts.join(sep)\<close> on an array of strings.\<close>

fun join :: "string list \<Rightarrow> string \<Rightarrow> string" where
  "join [] sep = []"
| "join [x] sep = x"
| "join (x # y # ys) sep = x @ sep @ join (y # ys) sep"

text \<open>The decimal text of a natural number, as a template literal prints it.\<close>

definition digitChar :: "nat \<Rightarrow> char" where
  "digitChar d =
    (if d = 0 then CHR ''0'' else if d = 1 then CHR ''1'' else if d = 2 then CHR ''2''
     else if d = 3 then CHR ''3'' else if d = 4 then CHR ''4'' else if d = 5 then CHR ''5''
     else if d = 6 then CHR ''6'' else if d = 7 then CHR ''7'' else if d = 8 then CHR ''8''
     else CHR ''9'')"

fun numberToString :: "nat \<Rightarrow> string" where
  "numberToString n =
    (if n < 10 then [digitChar n] else numberToString (n div 10) @ [digitChar (n mod 10)])"

text \<open>
  \<^verbatim>\<open>parseInt(string)\<close> with no radix, after ECMAScript: leading white space is dropped, then
  a sign, then \<^verbatim>\<open>0x\<close> or \<^verbatim>\<open>0X\<close> (which makes the radix 16); the digits up to the first
  character that is not a digit of the radix are the number, and NaN (\<open>None\<close>) is the
  result when there is none. The result is read as a real, as every number here.
\<close>

definition isWhiteSpace :: "char \<Rightarrow> bool" where
  "isWhiteSpace c =
    (c = CHR 0x09 \<or> c = CHR 0x0A \<or> c = CHR 0x0B \<or> c = CHR 0x0C \<or> c = CHR 0x0D
     \<or> c = CHR '' '' \<or> c = CHR 0xA0)"

definition digitValue :: "char \<Rightarrow> nat option" where
  "digitValue c =
    map_of
      [(CHR ''0'', 0), (CHR ''1'', 1), (CHR ''2'', 2), (CHR ''3'', 3), (CHR ''4'', 4),
       (CHR ''5'', 5), (CHR ''6'', 6), (CHR ''7'', 7), (CHR ''8'', 8), (CHR ''9'', 9),
       (CHR ''a'', 10), (CHR ''A'', 10), (CHR ''b'', 11), (CHR ''B'', 11),
       (CHR ''c'', 12), (CHR ''C'', 12), (CHR ''d'', 13), (CHR ''D'', 13),
       (CHR ''e'', 14), (CHR ''E'', 14), (CHR ''f'', 15), (CHR ''F'', 15)] c"

definition radixDigit :: "nat \<Rightarrow> char \<Rightarrow> nat option" where
  "radixDigit R c =
    (case digitValue c of None \<Rightarrow> None | Some d \<Rightarrow> if d < R then Some d else None)"

fun digitsFrom :: "nat \<Rightarrow> string \<Rightarrow> nat list" where
  "digitsFrom R [] = []"
| "digitsFrom R (c # cs) =
    (case radixDigit R c of None \<Rightarrow> [] | Some d \<Rightarrow> d # digitsFrom R cs)"

definition mathInt :: "nat \<Rightarrow> nat list \<Rightarrow> nat" where
  "mathInt R ds = foldl (\<lambda>acc d. acc * R + d) 0 ds"

definition parseInt :: "string \<Rightarrow> real option" where
  "parseInt inputString =
    (let S = dropWhile isWhiteSpace inputString;
         sign = (case S of [] \<Rightarrow> 1 | c # cs \<Rightarrow> (if c = CHR ''-'' then - 1 else (1 :: real)));
         S = (case S of
                [] \<Rightarrow> S
              | c # cs \<Rightarrow> (if c = CHR ''+'' \<or> c = CHR ''-'' then cs else S));
         hex = (take 2 S = ''0x'' \<or> take 2 S = ''0X'');
         R = (if hex then 16 else 10);
         S = (if hex then drop 2 S else S);
         Z = digitsFrom R S
     in if Z = [] then None else Some (sign * real (mathInt R Z)))"

subsection \<open>Dates and the runtime\<close>

text \<open>
  A \<^verbatim>\<open>Date\<close> object holds a time value in milliseconds since the epoch, or is an
  Invalid Date (its time value is NaN). \<^verbatim>\<open>new Date()\<close> reads the clock and is always
  valid, so the clock reading \<open>now\<close> is an \<open>int\<close>; each function that reads the clock takes
  the reading as an argument.
\<close>

datatype jsdate = InvalidDate | Date int

definition dateGe :: "jsdate \<Rightarrow> int \<Rightarrow> bool" where
  "dateGe d t = (case d of InvalidDate \<Rightarrow> False | Date x \<Rightarrow> x \<ge> t)"

definition dateLe :: "jsdate \<Rightarrow> int \<Rightarrow> bool" where
  "dateLe d t = (case d of InvalidDate \<Rightarrow> False | Date x \<Rightarrow> x \<le> t)"

datatype js_error = JsError (message: string) (stack: string)

text \<open>
  What the program takes from the JavaScript engine and the server's time zone, as
  parameters:
  \<^item> \<open>parseDate s\<close> is \<^verbatim>\<open>new Date(s)\<close>;
  \<^item> \<open>localTZA t isUTC\<close> is the offset of the server's time zone in milliseconds,
    ECMAScript's LocalTZA: at the instant \<open>t\<close> when \<open>isUTC\<close>, at the local time \<open>t\<close>
    otherwise;
  \<^item> \<open>stackOf msg\<close> is the \<^verbatim>\<open>stack\<close> of \<^verbatim>\<open>new Error(msg)\<close> thrown by the request handler;
  \<^item> \<open>nullPropertyError\<close> is the TypeError of reading a property of \<^verbatim>\<open>null\<close>,
    \<open>notAFunctionError\<close> the TypeError of calling \<^verbatim>\<open>filter\<close> on a value that has none.
\<close>

record runtime =
  parseDate :: "string \<Rightarrow> jsdate"
  localTZA :: "int \<Rightarrow> bool \<Rightarrow> int"
  stackOf :: "string \<Rightarrow> string"
  nullPropertyError :: js_error
  notAFunctionError :: js_error

text \<open>
  The calendar of \<^verbatim>\<open>Date\<close>, the proleptic Gregorian one: \<open>civilFromDays\<close> gives the year,
  the month (1 to 12) and the day of the month of a day number since 1970-01-01, and
  \<open>daysFromCivil\<close> the day number of a year, a month and a day of the month, where a day
  past the end of the month runs into the next months as in ECMAScript's MakeDay.
\<close>

definition msPerDay :: int where
  "msPerDay = 86400000"

definition civilFromDays :: "int \<Rightarrow> int \<times> int \<times> int" where
  "civilFromDays z0 =
    (let z = z0 + 719468;
         era = z div 146097;
         doe = z mod 146097;
         yoe = (doe - doe div 1460 + doe div 36524 - doe div 146096) div 365;
         y = yoe + era * 400;
         doy = doe - (365 * yoe + yoe div 4 - yoe div 100);
         mp = (5 * doy + 2) div 153;
         d = doy - (153 * mp + 2) div 5 + 1;
         m = (if mp < 10 then mp + 3 else mp - 9)
     in (if m \<le> 2 then y + 1 else y, m, d))"

definition daysFromCivil :: "int \<Rightarrow> int \<Rightarrow> int \<Rightarrow> int" where
  "daysFromCivil y0 m d =
    (let y = (if m \<le> 2 then y0 - 1 else y0);
         era = y div 400;
         yoe = y mod 400;
         doy = (153 * (if m > 2 then m - 3 else m + 9) + 2) div 5 + d - 1;
         doe = yoe * 365 + yoe div 4 - yoe div 100 + doy
     in era * 146097 + doe - 719468)"

text \<open>ECMAScript's LocalTime and UTC, between instants and local times.\<close>

definition localTime :: "runtime \<Rightarrow> int \<Rightarrow> int" where
  "localTime rt t = t + localTZA rt t True"

definition utcOf :: "runtime \<Rightarrow> int \<Rightarrow> int" where
  "utcOf rt t = t - localTZA rt t False"

text \<open>
  \<^verbatim>\<open>new Date(now.getFullYear() - 1, now.getMonth(), now.getDate())\<close>: local midnight of the
  day with the month and the day of \<open>now\<close>, one year earlier. The constructor reads a year
  from 0 to 99 as 1900 plus that year.
\<close>

definition oneYearAgoOf :: "runtime \<Rightarrow> int \<Rightarrow> int" where
  "oneYearAgoOf rt now =
    (case civilFromDays (localTime rt now div msPerDay) of
       (y, m, d) \<Rightarrow>
         (let year = (if 0 \<le> y - 1 \<and> y - 1 \<le> 99 then 1900 + (y - 1) else y - 1)
          in utcOf rt (daysFromCivil year m d * msPerDay)))"

text \<open>
  \<^verbatim>\<open>d = new Date(now); d.setDate(d.getDate() + 30)\<close>: the local time of \<open>now\<close> moved
  thirty days on at the same time of day.
\<close>

definition thirtyDaysFrom :: "runtime \<Rightarrow> int \<Rightarrow> int" where
  "thirtyDaysFrom rt now = utcOf rt (localTime rt now + 30 * msPerDay)"

section \<open>Data model\<close>

record Address =
  streetNumber :: "string option"
  streetName :: "string option"
  streetSuffix :: "string option"
  unitNumber :: "string option"
  city :: "string option"
  state :: "string option"
  zip_field :: "string option"

record Details =
  propertyType :: "string option"
  description :: "string option"

record Timestamps =
  terminatedDate :: "string option"
  possessionDate :: "string option"
  conditionalExpiryDate :: "string option"
  closedDate :: "string option"

record MapInfo =
  latitude :: "real option"
  longitude :: "real option"

record RawListing =
  mlsNumber :: "string option"
  mls :: "string option"
  listPrice :: "real option"
  price :: "real option"
  originalPrice :: "real option"
  soldPrice :: "real option"
  simpleDaysOnMarket :: "real option"
  listDate :: "string option"
  type_field :: "string option"
  details :: "Details option"
  images :: "string list option"
  address :: "Address option"
  timestamps :: "Timestamps option"
  map_field :: "MapInfo option"

section \<open>The bargain classifier\<close>

text \<open>\<^verbatim>\<open>value || ''\<close> on a string field.\<close>

definition orEmpty :: "string option \<Rightarrow> string" where
  "orEmpty v = (case v of None \<Rightarrow> [] | Some s \<Rightarrow> s)"

text \<open>
  \<^verbatim>\<open>getBargainTags(property)\<close>. The function reads the clock itself
  (\<^verbatim>\<open>const now = new Date()\<close>); \<open>now\<close> is that reading. Each \<^verbatim>\<open>tags.push\<close> appends to
  the list built so far.
\<close>

definition getBargainTags :: "runtime \<Rightarrow> int \<Rightarrow> RawListing \<Rightarrow> string list" where
  "getBargainTags rt now property =
    (let tags = [];
         oneYearAgo = oneYearAgoOf rt now;
         twoMonthsInDays = 60;
         daysOnMarket =
           (case simpleDaysOnMarket property of
              Some d \<Rightarrow> Some d
            | None \<Rightarrow>
                (case listDate property of
                   None \<Rightarrow> Some 0
                 | Some s \<Rightarrow>
                     if s = [] then Some 0
                     else (case parseDate rt s of
                             InvalidDate \<Rightarrow> None
                           | Date t \<Rightarrow>
                               Some (of_int \<lfloor>real_of_int (now - t) / (1000 * 60 * 60 * 24)\<rfloor>))));
         tags = (if numGe daysOnMarket (Some twoMonthsInDays)
                 then tags @ [''long time no sold''] else tags);
         terminatedDate' =
           (case chain (timestamps property) terminatedDate of
              None \<Rightarrow> None
            | Some s \<Rightarrow> if s = [] then None else Some (parseDate rt s));
         tags = (if (case terminatedDate' of None \<Rightarrow> False | Some d \<Rightarrow> dateGe d oneYearAgo)
                 then tags @ [''reposted''] else tags);
         originalPrice' = orNum (originalPrice property) (soldPrice property);
         tags = (if truthyNum originalPrice' \<and> truthyNum (listPrice property)
                    \<and> numGt (listPrice property) (Some 0)
                    \<and> numLt (listPrice property) originalPrice'
                 then tags @ [''selling at a loss''] else tags);
         tags = (if truthyNum originalPrice' \<and> truthyNum (listPrice property)
                    \<and> numGt (listPrice property) (Some 0)
                    \<and> numGe (listPrice property) (map_option (\<lambda>x. x * 2) originalPrice')
                 then tags @ [''selling at huge profit''] else tags);
         possessionDate' =
           (case chain (timestamps property) possessionDate of
              None \<Rightarrow> None
            | Some s \<Rightarrow> if s = [] then None else Some (parseDate rt s));
         thirtyDaysFromNow = thirtyDaysFrom rt now;
         tags = (if (case possessionDate' of
                       None \<Rightarrow> False
                     | Some d \<Rightarrow> dateLe d thirtyDaysFromNow \<and> dateGe d now)
                 then tags @ [''quicky''] else tags);
         conditionalExpiryDate' = chain (timestamps property) conditionalExpiryDate;
         closedDate' = chain (timestamps property) closedDate;
         tags = (if truthyStr conditionalExpiryDate' \<and> \<not> truthyStr closedDate'
                 then tags @ [''last deal fell through''] else tags);
         description' = orEmpty (chain (details property) description);
         tags = (if includesStr (toLowerCase description') ''estate''
                 then tags @ [''estate sell''] else tags)
     in tags)"

text \<open>
  The seven criteria of \<^verbatim>\<open>filterProperties\<close>, one definition for each constant of the
  filter callback, under the constant's name. \<open>now\<close> is the clock reading that
  \<^verbatim>\<open>filterProperties\<close> makes once, before it filters.
\<close>

definition onMarket2Months :: "runtime \<Rightarrow> int \<Rightarrow> RawListing \<Rightarrow> bool" where
  "onMarket2Months rt now property =
    (let twoMonthsInDays = 60;
         daysOnMarket =
           (case simpleDaysOnMarket property of
              Some d \<Rightarrow> Some d
            | None \<Rightarrow>
                (case listDate property of
                   None \<Rightarrow> Some 0
                 | Some s \<Rightarrow>
                     if s = [] then Some 0
                     else (case parseDate rt s of
                             InvalidDate \<Rightarrow> None
                           | Date t \<Rightarrow>
                               Some (of_int \<lfloor>real_of_int (now - t) / (1000 * 60 * 60 * 24)\<rfloor>))))
     in numGe daysOnMarket (Some twoMonthsInDays))"

definition hasTerminatedListing :: "runtime \<Rightarrow> int \<Rightarrow> RawListing \<Rightarrow> bool" where
  "hasTerminatedListing rt now property =
    (let oneYearAgo = oneYearAgoOf rt now;
         terminatedDate' =
           (case chain (timestamps property) terminatedDate of
              None \<Rightarrow> None
            | Some s \<Rightarrow> if s = [] then None else Some (parseDate rt s))
     in case terminatedDate' of None \<Rightarrow> False | Some d \<Rightarrow> dateGe d oneYearAgo)"

definition priceBelowPurchase :: "RawListing \<Rightarrow> bool" where
  "priceBelowPurchase property =
    (let originalPrice' = orNum (originalPrice property) (soldPrice property)
     in truthyNum originalPrice' \<and> truthyNum (listPrice property)
        \<and> numGt (listPrice property) (Some 0)
        \<and> numLt (listPrice property) originalPrice')"

definition priceDoublePurchase :: "RawListing \<Rightarrow> bool" where
  "priceDoublePurchase property =
    (let originalPrice' = orNum (originalPrice property) (soldPrice property)
     in truthyNum originalPrice' \<and> truthyNum (listPrice property)
        \<and> numGt (listPrice property) (Some 0)
        \<and> numGe (listPrice property) (map_option (\<lambda>x. x * 2) originalPrice'))"

definition quickClose :: "runtime \<Rightarrow> int \<Rightarrow> RawListing \<Rightarrow> bool" where
  "quickClose rt now property =
    (let possessionDate' =
           (case chain (timestamps property) possessionDate of
              None \<Rightarrow> None
            | Some s \<Rightarrow> if s = [] then None else Some (parseDate rt s));
         thirtyDaysFromNow = thirtyDaysFrom rt now
     in case possessionDate' of
          None \<Rightarrow> False
        | Some d \<Rightarrow> dateLe d thirtyDaysFromNow \<and> dateGe d now)"

definition dealFellThrough :: "RawListing \<Rightarrow> bool" where
  "dealFellThrough property =
    (let conditionalExpiryDate' = chain (timestamps property) conditionalExpiryDate;
         closedDate' = chain (timestamps property) closedDate
     in truthyStr conditionalExpiryDate' \<and> \<not> truthyStr closedDate')"

definition isEstateSale :: "RawListing \<Rightarrow> bool" where
  "isEstateSale property =
    (let description' = orEmpty (chain (details property) description)
     in includesStr (toLowerCase description') ''estate'')"

definition filterProperties :: "runtime \<Rightarrow> int \<Rightarrow> RawListing list \<Rightarrow> RawListing list" where
  "filterProperties rt now properties =
    filter (\<lambda>property.
        onMarket2Months rt now property \<or> hasTerminatedListing rt now property
        \<or> priceBelowPurchase property \<or> priceDoublePurchase property
        \<or> quickClose rt now property \<or> dealFellThrough property
        \<or> isEstateSale property) properties"

definition filterFixerProperties :: "RawListing list \<Rightarrow> RawListing list" where
  "filterFixerProperties properties =
    filter (\<lambda>property.
        let description' = orEmpty (chain (details property) description)
        in includesStr (toLowerCase description') ''sold as is'') properties"

text \<open>
  The two placeholder filters. They are \<^verbatim>\<open>async\<close> and awaited at once; neither calls
  \<^verbatim>\<open>calculateDistance\<close> or \<^verbatim>\<open>calculateWalkingTime\<close>.
\<close>

definition filterSchoolProperties :: "RawListing list \<Rightarrow> RawListing list" where
  "filterSchoolProperties properties =
    filter (\<lambda>property.
        let lat = chain (map_field property) latitude;
            lon = chain (map_field property) longitude
        in truthyNum lat \<and> truthyNum lon) properties"

definition filterSubwayProperties :: "RawListing list \<Rightarrow> RawListing list" where
  "filterSubwayProperties properties =
    filter (\<lambda>property.
        let lat = chain (map_field property) latitude;
            lon = chain (map_field property) longitude
        in truthyNum lat \<and> truthyNum lon) properties"

section \<open>Formatting for the frontend\<close>

text \<open>\<^verbatim>\<open>if (v) parts.push(v)\<close>\<close>

definition pushIfTruthy :: "string list \<Rightarrow> string option \<Rightarrow> string list" where
  "pushIfTruthy parts v = (if truthyStr v then parts @ [orEmpty v] else parts)"

definition formatAddress :: "RawListing \<Rightarrow> string" where
  "formatAddress property =
    (case address property of
       None \<Rightarrow> ''Address not available''
     | Some addr \<Rightarrow>
        (let streetParts = [];
             streetParts = pushIfTruthy streetParts (streetNumber addr);
             streetParts = pushIfTruthy streetParts (streetName addr);
             streetParts = pushIfTruthy streetParts (streetSuffix addr);
             streetParts = (if truthyStr (unitNumber addr)
                            then streetParts @ [''Unit '' @ orEmpty (unitNumber addr)]
                            else streetParts);
             streetAddress = join streetParts '' '';
             addressParts = [];
             addressParts = pushIfTruthy addressParts (Some streetAddress);
             addressParts = pushIfTruthy addressParts (city addr);
             addressParts = pushIfTruthy addressParts (state addr);
             addressParts = pushIfTruthy addressParts (zip_field addr);
             joined = join addressParts '', ''
         in if joined = [] then ''Address not available'' else joined))"

text \<open>
  The record sent to the frontend, and the callback of \<^verbatim>\<open>filteredProperties.map\<close> that
  builds it. \<open>now\<close> is the clock reading of the call of \<^verbatim>\<open>getBargainTags\<close> inside it.
\<close>

record ClassifiedListing =
  mlsNumber :: string
  address :: string
  askingPrice :: real
  propertyType :: string
  thumbnail :: string
  realtorCaLink :: string
  tags :: "string list"

definition formatProperty :: "runtime \<Rightarrow> string \<Rightarrow> int \<Rightarrow> RawListing \<Rightarrow> ClassifiedListing" where
  "formatProperty rt searchType now property =
    (let tags' = (if searchType = ''bargain'' then getBargainTags rt now property else [])
     in \<lparr> ClassifiedListing.mlsNumber =
            orEmpty (orStr (orStr (RawListing.mlsNumber property) (mls property)) (Some [])),
          address = formatAddress property,
          askingPrice =
            (case orNum (orNum (listPrice property) (price property)) (Some 0) of
               None \<Rightarrow> 0 | Some x \<Rightarrow> x),
          propertyType =
            orEmpty (orStr (orStr (chain (details property) Details.propertyType)
                                  (type_field property)) (Some ''Unknown'')),
          thumbnail =
            (case images property of
               None \<Rightarrow> []
             | Some [] \<Rightarrow> []
             | Some (img # rest) \<Rightarrow> img),
          realtorCaLink =
            ''https://www.realtor.ca/real-estate/''
            @ orEmpty (orStr (orStr (RawListing.mlsNumber property) (mls property)) (Some [])),
          tags = tags' \<rparr>)"

text \<open>
  The \<open>k\<close>-th reading of the clock during one request is \<open>clock k\<close>. The callback runs
  once for each filtered listing, in order; \<open>formatFrom\<close> starts at reading \<open>k\<close>.
\<close>

fun formatFrom :: "runtime \<Rightarrow> string \<Rightarrow> (nat \<Rightarrow> int) \<Rightarrow> nat \<Rightarrow> RawListing list \<Rightarrow> ClassifiedListing list" where
  "formatFrom rt searchType clock k [] = []"
| "formatFrom rt searchType clock k (property # rest) =
    formatProperty rt searchType (clock k) property
    # formatFrom rt searchType clock (Suc k) rest"

section \<open>The properties endpoint\<close>

text \<open>
  The body of the upstream response after \<^verbatim>\<open>response.json()\<close>: any JSON value, whose
  arrays hold listings.
\<close>

datatype 'a envelope =
    JNull
  | JBool bool
  | JNum real
  | JStr string
  | JArr "'a list"
  | JObj "(string \<times> 'a envelope) list"

text \<open>
  \<^verbatim>\<open>data.key\<close> on a value that is not \<^verbatim>\<open>null\<close>: the value of the key in an object (the
  last one when the JSON text repeats the key), \<^verbatim>\<open>undefined\<close> (\<open>None\<close>) otherwise. It is
  used with the keys \<^verbatim>\<open>listings\<close>, \<^verbatim>\<open>results\<close> and \<^verbatim>\<open>data\<close> only, which no array,
  string, number or boolean has.
\<close>

definition getProp :: "'a envelope \<Rightarrow> string \<Rightarrow> 'a envelope option" where
  "getProp data key = (case data of JObj kvs \<Rightarrow> map_of (rev kvs) key | _ \<Rightarrow> None)"

definition truthy :: "'a envelope option \<Rightarrow> bool" where
  "truthy v =
    (case v of
       None \<Rightarrow> False
     | Some JNull \<Rightarrow> False
     | Some (JBool b) \<Rightarrow> b
     | Some (JNum x) \<Rightarrow> x \<noteq> 0
     | Some (JStr s) \<Rightarrow> s \<noteq> []
     | Some (JArr xs) \<Rightarrow> True
     | Some (JObj kvs) \<Rightarrow> True)"

text \<open>\<^verbatim>\<open>a || b\<close> where \<open>b\<close> may be \<^verbatim>\<open>undefined\<close>, and where it may not.\<close>

definition orValue :: "'a envelope option \<Rightarrow> 'a envelope option \<Rightarrow> 'a envelope option" where
  "orValue a b = (if truthy a then a else b)"

definition orDefined :: "'a envelope option \<Rightarrow> 'a envelope \<Rightarrow> 'a envelope" where
  "orDefined a b = (case a of None \<Rightarrow> b | Some v \<Rightarrow> if truthy (Some v) then v else b)"

definition isArray :: "'a envelope \<Rightarrow> bool" where
  "isArray data = (case data of JArr xs \<Rightarrow> True | _ \<Rightarrow> False)"

text \<open>
  \<^verbatim>\<open>data.listings || data.results || data.data || (Array.isArray(data) ? data : [])\<close>.
  Reading a property of \<^verbatim>\<open>null\<close> throws, at the first operand; no other operand can
  throw.
\<close>

definition extractListings :: "runtime \<Rightarrow> 'a envelope \<Rightarrow> js_error + 'a envelope" where
  "extractListings rt data =
    (case data of
       JNull \<Rightarrow> Inl (nullPropertyError rt)
     | _ \<Rightarrow>
        Inr (orDefined
              (orValue (orValue (getProp data ''listings'') (getProp data ''results''))
                       (getProp data ''data''))
              (if isArray data then data else JArr [])))"

text \<open>
  The outcome of \<^verbatim>\<open>fetch\<close>: the promise rejects, or there is a response, with its
  \<^verbatim>\<open>ok\<close> flag, its status, its body as \<^verbatim>\<open>text()\<close> gives it and as \<^verbatim>\<open>json()\<close> gives it
  (a SyntaxError when the body is not JSON).
\<close>

record 'a upstream_response =
  ok :: bool
  status :: nat
  text_body :: string
  json_body :: "js_error + 'a envelope"

datatype 'a fetch_outcome = Rejected js_error | Responded "'a upstream_response"

record outbound_request =
  url :: string
  method_field :: string
  headers :: "(string \<times> string) list"

datatype response_body =
    ErrorBody string "string option"
  | PropertiesBody "ClassifiedListing list"

record http_response =
  code :: nat
  body :: response_body

text \<open>
  The \<^verbatim>\<open>switch\<close> on the search type. \<^verbatim>\<open>listings.filter\<close> exists on an array only.
  \<^verbatim>\<open>filterProperties\<close> makes the first clock reading of the request.
\<close>

definition filterBySearchType :: "runtime \<Rightarrow> (nat \<Rightarrow> int) \<Rightarrow> string \<Rightarrow> RawListing envelope \<Rightarrow> js_error + (RawListing list \<times> nat)" where
  "filterBySearchType rt clock searchType listings =
    (case listings of
       JArr xs \<Rightarrow>
         if searchType = ''fixer'' then Inr (filterFixerProperties xs, 0)
         else if searchType = ''school'' then Inr (filterSchoolProperties xs, 0)
         else if searchType = ''subway'' then Inr (filterSubwayProperties xs, 0)
         else Inr (filterProperties rt (clock 0) xs, 1)
     | _ \<Rightarrow> Inl (notAFunctionError rt))"

text \<open>
  The \<^verbatim>\<open>try\<close> block of the handler after the check of the API key: the value is the
  thrown error or the list for \<^verbatim>\<open>res.json({ properties })\<close>.
\<close>

definition fetchAndFormat :: "runtime \<Rightarrow> (nat \<Rightarrow> int) \<Rightarrow> string \<Rightarrow> RawListing fetch_outcome \<Rightarrow> js_error + ClassifiedListing list" where
  "fetchAndFormat rt clock searchType outcome =
    (case outcome of
       Rejected e \<Rightarrow> Inl e
     | Responded response \<Rightarrow>
         if \<not> ok response then
           (let errorText = text_body response;
                msg = ''Repliers API error: '' @ numberToString (status response)
                      @ '' - '' @ errorText
            in Inl (JsError msg (stackOf rt msg)))
         else
           (case json_body response of
              Inl e \<Rightarrow> Inl e
            | Inr data \<Rightarrow>
               (case extractListings rt data of
                  Inl e \<Rightarrow> Inl e
                | Inr listings \<Rightarrow>
                   (case filterBySearchType rt clock searchType listings of
                      Inl e \<Rightarrow> Inl e
                    | Inr (filteredProperties, k) \<Rightarrow>
                        Inr (formatFrom rt searchType clock k filteredProperties)))))"

text \<open>
  \<^verbatim>\<open>app.get('/api/properties', ...)\<close>. \<open>apiKey\<close> is \<^verbatim>\<open>process.env.REPLIERS_API_KEY\<close>,
  \<open>queryType\<close> is \<^verbatim>\<open>req.query.type\<close>, \<open>upstream\<close> answers the request that \<^verbatim>\<open>fetch\<close>
  sends, which is \<open>repliersRequest\<close>. The result is the response and the list of the
  requests sent upstream.
\<close>

definition repliersRequest :: "string option \<Rightarrow> outbound_request" where
  "repliersRequest apiKey =
    \<lparr> url = ''https://api.repliers.io/listings?province=ON&status=A'',
      method_field = ''GET'',
      headers = [(''REPLIERS-API-KEY'', orEmpty apiKey),
                 (''Content-Type'', ''application/json'')] \<rparr>"

definition handleProperties :: "runtime \<Rightarrow> (nat \<Rightarrow> int) \<Rightarrow> (outbound_request \<Rightarrow> RawListing fetch_outcome) \<Rightarrow> string option \<Rightarrow> string option \<Rightarrow> http_response \<times> outbound_request list" where
  "handleProperties rt clock upstream apiKey queryType =
    (let searchType = orEmpty (orStr queryType (Some ''bargain''))
     in if \<not> truthyStr apiKey then
          (\<lparr> code = 500,
             body = ErrorBody
               ''Repliers API key not configured. Please set REPLIERS_API_KEY in .env file''
               None \<rparr>, [])
        else
          (let request = repliersRequest apiKey
           in case fetchAndFormat rt clock searchType (upstream request) of
                Inl error \<Rightarrow>
                  (\<lparr> code = 500,
                     body = ErrorBody (message error) (Some (stack error)) \<rparr>, [request])
              | Inr formattedProperties \<Rightarrow>
                  (\<lparr> code = 200, body = PropertiesBody formattedProperties \<rparr>, [request])))"

section \<open>Client-side refinement\<close>

text \<open>
  \<^verbatim>\<open>applyFilters\<close> of \<^verbatim>\<open>App.jsx\<close>, on the component state it reads; its result is the
  list given to \<^verbatim>\<open>setFilteredProperties\<close>.
\<close>

record filter_state =
  properties :: "ClassifiedListing list"
  minPrice :: string
  maxPrice :: string
  selectedPropertyType :: string
  selectedTag :: string

definition applyFilters :: "filter_state \<Rightarrow> ClassifiedListing list" where
  "applyFilters st =
    (let filtered = properties st;
         filtered =
           (if minPrice st \<noteq> [] then
              (let min' = parseInt (minPrice st)
               in filter (\<lambda>p. \<not> (askingPrice p \<noteq> 0) \<or> numGe (Some (askingPrice p)) min') filtered)
            else filtered);
         filtered =
           (if maxPrice st \<noteq> [] then
              (let max' = parseInt (maxPrice st)
               in filter (\<lambda>p. \<not> (askingPrice p \<noteq> 0) \<or> numLe (Some (askingPrice p)) max') filtered)
            else filtered);
         filtered =
           (if selectedPropertyType st \<noteq> [] then
              filter (\<lambda>p. includesStr (toLowerCase (propertyType p))
                                       (toLowerCase (selectedPropertyType st))) filtered
            else filtered);
         filtered =
           (if selectedTag st \<noteq> [] then
              filter (\<lambda>p. list_ex (\<lambda>tag. includesStr (toLowerCase tag)
                                                     (toLowerCase (selectedTag st))) (tags p)) filtered
            else filtered)
     in filtered)"

section \<open>A sample runtime\<close>

text \<open>
  A runtime to evaluate the program on concrete inputs: a server whose local time zone is
  UTC. \<open>sampleParseDate\<close> knows the ISO strings used below and gives Invalid Date for
  every other string.
\<close>

definition sampleParseDate :: "string \<Rightarrow> jsdate" where
  "sampleParseDate s =
    (if s = ''2025-12-01T00:00:00.000Z'' then Date 1764547200000
     else if s = ''2025-08-01T00:00:00.000Z'' then Date 1754006400000
     else if s = ''2025-03-15T12:00:00.000Z'' then Date 1742040000000
     else if s = ''2024-11-03T00:00:00.000Z'' then Date 1730592000000
     else if s = ''2024-11-02T23:59:59.999Z'' then Date 1730591999999
     else if s = ''2025-11-03T10:00:00.000Z'' then Date 1762164000000
     else if s = ''2025-11-03T09:59:59.999Z'' then Date 1762163999999
     else if s = ''2025-12-03T10:00:00.000Z'' then Date 1764756000000
     else if s = ''2025-12-03T10:00:00.001Z'' then Date 1764756000001
     else if s = ''2025-10-01T00:00:00.000Z'' then Date 1759276800000
     else InvalidDate)"

definition sampleRuntime :: runtime where
  "sampleRuntime =
    \<lparr> parseDate = sampleParseDate,
      localTZA = (\<lambda>t isUTC. 0),
      stackOf = (\<lambda>msg. ''Error: '' @ msg),
      nullPropertyError = JsError ''Cannot read properties of null'' ''TypeError'',
      notAFunctionError = JsError ''properties.filter is not a function'' ''TypeError'' \<rparr>"

text \<open>A listing with no field at all, to build sample listings from.\<close>

definition emptyListing :: RawListing where
  "emptyListing =
    \<lparr> RawListing.mlsNumber = None, mls = None, listPrice = None, price = None,
      originalPrice = None, soldPrice = None, simpleDaysOnMarket = None, listDate = None,
      type_field = None, details = None, images = None, address = None,
      timestamps = None, map_field = None \<rparr>"

definition emptyTimestamps :: Timestamps where
  "emptyTimestamps =
    \<lparr> terminatedDate = None, possessionDate = None, conditionalExpiryDate = None,
      closedDate = None \<rparr>"

definition emptyAddress :: Address where
  "emptyAddress =
    \<lparr> streetNumber = None, streetName = None, streetSuffix = None, unitNumber = None,
      city = None, state = None, zip_field = None \<rparr>"

section \<open>Definitions for the properties proved below\<close>


definition quickListing :: RawListing where
  "quickListing =
    emptyListing\<lparr> RawListing.mlsNumber := Some ''X100'',
      timestamps := Some (emptyTimestamps\<lparr> possessionDate := Some ''2025-12-01T00:00:00.000Z'' \<rparr>) \<rparr>"

text \<open>
  Days on market in the words of the specification: \<^verbatim>\<open>simpleDaysOnMarket\<close> if present
  (an explicit zero included), else \<open>floor((now - listDate) / 1 day)\<close> if \<^verbatim>\<open>listDate\<close> is
  present (a non-empty string), else 0. \<open>None\<close> is NaN, for a list date that does not parse.
\<close>

definition spec_daysOnMarket :: "runtime \<Rightarrow> int \<Rightarrow> RawListing \<Rightarrow> real option" where
  "spec_daysOnMarket rt now p =
    (case simpleDaysOnMarket p of
       Some d \<Rightarrow> Some d
     | None \<Rightarrow>
        if truthyStr (listDate p) then
          (case parseDate rt (orEmpty (listDate p)) of
             Date t \<Rightarrow> Some (of_int \<lfloor>real_of_int (now - t) / 86400000\<rfloor>)
           | InvalidDate \<Rightarrow> None)
        else Some 0)"

definition staleListing :: RawListing where
  "staleListing = emptyListing\<lparr> listDate := Some ''2025-08-01T00:00:00.000Z'' \<rparr>"

definition freshListing :: RawListing where
  "freshListing =
    emptyListing\<lparr> simpleDaysOnMarket := Some 0, listDate := Some ''2025-03-15T12:00:00.000Z'' \<rparr>"

text \<open>
  The original price in the words of the specification, \<^verbatim>\<open>originalPrice ?? soldPrice\<close>,
  with the predicate of the tag "selling at a loss" on it; and the original price as the
  code computes it, \<^verbatim>\<open>originalPrice || soldPrice\<close>, which also falls back when
  \<^verbatim>\<open>originalPrice\<close> is 0.
\<close>

definition spec_originalPrice :: "RawListing \<Rightarrow> real option" where
  "spec_originalPrice p = (case originalPrice p of Some x \<Rightarrow> Some x | None \<Rightarrow> soldPrice p)"

definition spec_sellingAtALoss :: "RawListing \<Rightarrow> bool" where
  "spec_sellingAtALoss p =
    (case (spec_originalPrice p, listPrice p) of
       (Some orig, Some l) \<Rightarrow> l > 0 \<and> l < orig
     | _ \<Rightarrow> False)"

definition fallbackOriginalPrice :: "RawListing \<Rightarrow> real option" where
  "fallbackOriginalPrice p =
    (case originalPrice p of
       Some x \<Rightarrow> if x = 0 then soldPrice p else Some x
     | None \<Rightarrow> soldPrice p)"

definition zeroOriginalListing :: RawListing where
  "zeroOriginalListing =
    emptyListing\<lparr> originalPrice := Some 0, soldPrice := Some 500000, listPrice := Some 400000 \<rparr>"

definition doubledListing :: RawListing where
  "doubledListing = emptyListing\<lparr> originalPrice := Some 300000, listPrice := Some 600000 \<rparr>"

definition unchangedListing :: RawListing where
  "unchangedListing = emptyListing\<lparr> soldPrice := Some 450000, listPrice := Some 450000 \<rparr>"
















text \<open>
  Coordinates present, in the words of the specification (a value equal to 0 included), and
  coordinates that are present and not 0.
\<close>

definition spec_hasCoordinates :: "RawListing \<Rightarrow> bool" where
  "spec_hasCoordinates p =
    (chain (map_field p) latitude \<noteq> None \<and> chain (map_field p) longitude \<noteq> None)"

definition nonZeroCoordinates :: "RawListing \<Rightarrow> bool" where
  "nonZeroCoordinates p =
    (case map_field p of
       None \<Rightarrow> False
     | Some m \<Rightarrow>
        (case (latitude m, longitude m) of
           (Some lat, Some lon) \<Rightarrow> lat \<noteq> 0 \<and> lon \<noteq> 0
         | _ \<Rightarrow> False))"

definition equatorListing :: RawListing where
  "equatorListing =
    emptyListing\<lparr> map_field := Some \<lparr> latitude = Some 0, longitude = Some (- 79.4) \<rparr> \<rparr>"

definition torontoListing :: RawListing where
  "torontoListing =
    emptyListing\<lparr> map_field := Some \<lparr> latitude = Some 43.65, longitude = Some (- 79.4) \<rparr> \<rparr>"

text \<open>
  Envelope normalization in the words of the specification: of the candidates
  \<^verbatim>\<open>listings\<close>, \<^verbatim>\<open>results\<close>, \<^verbatim>\<open>data\<close> and the bare array, the first non-empty one wins.
  Two sample envelopes follow.
\<close>

definition nonEmptyArray :: "'a envelope option \<Rightarrow> bool" where
  "nonEmptyArray v = (case v of Some (JArr (x # xs)) \<Rightarrow> True | _ \<Rightarrow> False)"

definition spec_extractListings :: "'a envelope \<Rightarrow> 'a envelope" where
  "spec_extractListings data =
    (case List.find nonEmptyArray
            [getProp data ''listings'', getProp data ''results'', getProp data ''data'',
             (if isArray data then Some data else None)] of
       Some (Some v) \<Rightarrow> v
     | _ \<Rightarrow> JArr [])"

definition emptyFirstEnvelope :: "RawListing envelope" where
  "emptyFirstEnvelope = JObj [(''listings'', JArr []), (''results'', JArr [quickListing])]"

definition countedEnvelope :: "RawListing envelope" where
  "countedEnvelope = JObj [(''count'', JNum 1), (''results'', JArr [quickListing])]"

text \<open>
  An error response: an \<^verbatim>\<open>{ error }\<close> body and a status outside 200 to 299. Two sample
  upstream providers, and a clock that advances by a millisecond at each reading.
\<close>

definition isErrorResponse :: "http_response \<Rightarrow> bool" where
  "isErrorResponse r =
    (case body r of
       ErrorBody msg details' \<Rightarrow> code r < 200 \<or> 299 < code r
     | PropertiesBody ps \<Rightarrow> False)"

definition unauthorizedUpstream :: "outbound_request \<Rightarrow> RawListing fetch_outcome" where
  "unauthorizedUpstream request =
    Responded \<lparr> ok = False, status = 401, text_body = ''Unauthorized'',
                json_body = Inr (JStr ''Unauthorized'') \<rparr>"

definition listingUpstream :: "outbound_request \<Rightarrow> RawListing fetch_outcome" where
  "listingUpstream request =
    Responded \<lparr> ok = True, status = 200, text_body = [],
                json_body = Inr (JObj [(''listings'', JArr [quickListing])]) \<rparr>"

definition tickingClock :: "int \<Rightarrow> nat \<Rightarrow> int" where
  "tickingClock start k = start + int k"

text \<open>
  The address formatter in the words of the specification. A component is present when
  it is a non-empty string.
\<close>

definition presentOnly :: "string option list \<Rightarrow> string list" where
  "presentOnly vs = concat (List.map (\<lambda>v. case v of None \<Rightarrow> [] | Some s \<Rightarrow> if s = [] then [] else [s]) vs)"

definition spec_formatAddress :: "Address option \<Rightarrow> string" where
  "spec_formatAddress a =
    (case a of
       None \<Rightarrow> ''Address not available''
     | Some addr \<Rightarrow>
        (let streetLine =
               join (presentOnly [streetNumber addr, streetName addr, streetSuffix addr]
                     @ List.map (\<lambda>u. ''Unit '' @ u) (presentOnly [unitNumber addr])) '' '';
             parts = presentOnly [Some streetLine, city addr, state addr, zip_field addr]
         in if parts = [] then ''Address not available'' else join parts '', ''))"

definition mainStreetListing :: RawListing where
  "mainStreetListing =
    emptyListing\<lparr> RawListing.address :=
      Some (emptyAddress\<lparr> streetNumber := Some ''12'', streetName := Some ''Main'',
                          city := Some ''Toronto'', state := Some ''ON'' \<rparr>) \<rparr>"

text \<open>
  The number that the text of a number input denotes (an optional minus sign, digits, an
  optional fraction, an optional exponent), \<open>None\<close> when the text is not such a number; and
  the conjunction of the active filters as the specification words it: the bounds are the
  minimum and the maximum price that are set, a filter is active when its input is not
  empty, and a listing has no price when its \<^verbatim>\<open>askingPrice\<close> is 0, the default that the
  backend gives it.
\<close>

definition isDecimalDigit :: "char \<Rightarrow> bool" where
  "isDecimalDigit c = (radixDigit 10 c \<noteq> None)"

definition decimalValue :: "string \<Rightarrow> nat" where
  "decimalValue ds = mathInt 10 (digitsFrom 10 ds)"

definition spec_inputNumber :: "string \<Rightarrow> real option" where
  "spec_inputNumber input =
    (let negative = (case input of [] \<Rightarrow> False | c # cs \<Rightarrow> (c = CHR ''-''));
         unsigned = (if negative then drop 1 input else input);
         intPart = takeWhile isDecimalDigit unsigned;
         afterInt = dropWhile isDecimalDigit unsigned;
         hasPoint = (case afterInt of [] \<Rightarrow> False | c # cs \<Rightarrow> (c = CHR ''.''));
         fracPart = (if hasPoint then takeWhile isDecimalDigit (drop 1 afterInt) else []);
         afterFrac = (if hasPoint then dropWhile isDecimalDigit (drop 1 afterInt) else afterInt);
         hasExp = (case afterFrac of [] \<Rightarrow> False | c # cs \<Rightarrow> (c = CHR ''e'' \<or> c = CHR ''E''));
         expText = (if hasExp then drop 1 afterFrac else []);
         expNegative = (case expText of [] \<Rightarrow> False | c # cs \<Rightarrow> (c = CHR ''-''));
         expDigits = (case expText of
                        [] \<Rightarrow> []
                      | c # cs \<Rightarrow> (if c = CHR ''-'' \<or> c = CHR ''+'' then cs else expText));
         wellFormed =
           ((intPart \<noteq> [] \<or> fracPart \<noteq> [])
            \<and> (if hasPoint then fracPart \<noteq> [] else True)
            \<and> (if hasExp then expDigits \<noteq> [] \<and> list_all isDecimalDigit expDigits
                else afterFrac = []));
         mantissa = real (decimalValue intPart)
                    + real (decimalValue fracPart) / 10 ^ length fracPart;
         scaled = (if expNegative then mantissa / 10 ^ decimalValue expDigits
                   else mantissa * 10 ^ decimalValue expDigits)
     in if wellFormed then Some (if negative then - scaled else scaled) else None)"

definition spec_passesAll :: "filter_state \<Rightarrow> ClassifiedListing \<Rightarrow> bool" where
  "spec_passesAll st p =
    ((if minPrice st \<noteq> [] then
        askingPrice p = 0
        \<or> (case spec_inputNumber (minPrice st) of None \<Rightarrow> False | Some m \<Rightarrow> m \<le> askingPrice p)
      else True)
     \<and> (if maxPrice st \<noteq> [] then
        askingPrice p = 0
        \<or> (case spec_inputNumber (maxPrice st) of None \<Rightarrow> False | Some m \<Rightarrow> askingPrice p \<le> m)
      else True)
     \<and> (if selectedPropertyType st \<noteq> [] then
        sublist (toLowerCase (selectedPropertyType st)) (toLowerCase (propertyType p))
      else True)
     \<and> (if selectedTag st \<noteq> [] then
        list_ex (\<lambda>tag. sublist (toLowerCase (selectedTag st)) (toLowerCase tag)) (tags p)
      else True))"

text \<open>
  The conjunction as amended: the bounds are \<^verbatim>\<open>parseInt\<close> of the input texts, the leading
  integer of each, and a bound that is NaN is met by no priced listing.
\<close>

definition passesAll :: "filter_state \<Rightarrow> ClassifiedListing \<Rightarrow> bool" where
  "passesAll st p =
    ((if minPrice st \<noteq> [] then
        askingPrice p = 0
        \<or> (case parseInt (minPrice st) of None \<Rightarrow> False | Some m \<Rightarrow> m \<le> askingPrice p)
      else True)
     \<and> (if maxPrice st \<noteq> [] then
        askingPrice p = 0
        \<or> (case parseInt (maxPrice st) of None \<Rightarrow> False | Some m \<Rightarrow> askingPrice p \<le> m)
      else True)
     \<and> (if selectedPropertyType st \<noteq> [] then
        sublist (toLowerCase (selectedPropertyType st)) (toLowerCase (propertyType p))
      else True)
     \<and> (if selectedTag st \<noteq> [] then
        list_ex (\<lambda>tag. sublist (toLowerCase (selectedTag st)) (toLowerCase tag)) (tags p)
      else True))"

text \<open>
  A sample state with every filter active, and listings that fail exactly one filter each
  (below the minimum, above the maximum, another type, no matching tag), one that passes
  all and one with no price; a state whose chosen type has a letter outside A to Z; and a
  state whose minimum price is typed with an exponent.
\<close>

definition sampleListing :: "string \<Rightarrow> real \<Rightarrow> string \<Rightarrow> string list \<Rightarrow> ClassifiedListing" where
  "sampleListing number asking kind labels =
    \<lparr> ClassifiedListing.mlsNumber = number, address = ''Address not available'',
      askingPrice = asking, propertyType = kind, thumbnail = [],
      realtorCaLink = ''https://www.realtor.ca/real-estate/'' @ number, tags = labels \<rparr>"

definition belowMinListing :: ClassifiedListing where
  "belowMinListing = sampleListing ''L1'' 350000 ''Detached'' [''reposted'', ''quicky'']"

definition aboveMaxListing :: ClassifiedListing where
  "aboveMaxListing = sampleListing ''L2'' 950000 ''Detached'' [''reposted'', ''quicky'']"

definition otherTypeListing :: ClassifiedListing where
  "otherTypeListing = sampleListing ''L3'' 500000 ''Condo Apt'' [''reposted'', ''quicky'']"

definition otherTagListing :: ClassifiedListing where
  "otherTagListing = sampleListing ''L4'' 500000 ''Detached'' [''reposted'', ''estate sell'']"

definition detachedHouse :: ClassifiedListing where
  "detachedHouse = sampleListing ''L5'' 750000 ''Detached'' [''reposted'', ''quicky'']"

definition unpricedHouse :: ClassifiedListing where
  "unpricedHouse = sampleListing ''L6'' 0 ''Semi-Detached'' [''estate sell'', ''quicky'']"

definition sampleFilterState :: filter_state where
  "sampleFilterState =
    \<lparr> properties = [belowMinListing, aboveMaxListing, otherTypeListing, otherTagListing,
                     detachedHouse, unpricedHouse],
      minPrice = ''400000'', maxPrice = ''900000'',
      selectedPropertyType = ''DETACHED'', selectedTag = ''Quick'' \<rparr>"

definition chaletListing :: ClassifiedListing where
  "chaletListing = sampleListing ''L7'' 600000 (''Chalet d'' @ [CHR 0xE9] @ ''tach'' @ [CHR 0xE9]) []"

definition accentFilterState :: filter_state where
  "accentFilterState =
    \<lparr> properties = [detachedHouse, chaletListing],
      minPrice = [], maxPrice = [],
      selectedPropertyType = ''D'' @ [CHR 0xC9] @ ''TACH'' @ [CHR 0xC9], selectedTag = [] \<rparr>"

definition lowListing :: ClassifiedListing where
  "lowListing = sampleListing ''L8'' 50000 ''Detached'' [''quicky'']"

definition exponentFilterState :: filter_state where
  "exponentFilterState =
    \<lparr> properties = [lowListing],
      minPrice = ''1e5'', maxPrice = [], selectedPropertyType = [], selectedTag = [] \<rparr>"

text \<open>A listing that has \<^verbatim>\<open>mls\<close> and \<^verbatim>\<open>price\<close> in place of \<^verbatim>\<open>mlsNumber\<close> and \<^verbatim>\<open>listPrice\<close>.\<close>

definition fallbackListing :: RawListing where
  "fallbackListing = emptyListing\<lparr> mls := Some ''W9'', price := Some 250000 \<rparr>"

section \<open>The string functions\<close>

text \<open>
  \<open>includesStr\<close> is containment of the needle as a contiguous part of the haystack, as
  \<^verbatim>\<open>String.prototype.includes\<close> is.
\<close>

lemma startsWith_prefix: "startsWith hay needle \<longleftrightarrow> prefix needle hay"
  by (induction hay needle rule: startsWith.induct) auto

lemma includesStr_sublist: "includesStr hay needle \<longleftrightarrow> sublist needle hay"
  by (induction hay) (auto simp add: startsWith_prefix sublist_Cons_right)

lemma toLowerCase_samples:
  "toLowerCase ''Lovely ESTATE Sale'' = ''lovely estate sale''"
  "toLowerCase (''CAF'' @ [CHR 0xC9]) = ''caf'' @ [CHR 0xE9]"
  "toLowerCase [CHR 0xD7, CHR 0xDF, CHR 0xFF] = [CHR 0xD7, CHR 0xDF, CHR 0xFF]"
  by (simp_all add: toLowerCase_def toLowerChar_def)

lemma parseInt_samples:
  "parseInt ''400000'' = Some 400000"
  "parseInt ''900000'' = Some 900000"
  "parseInt ''1e5'' = Some 1"
  "parseInt ''  -12.7'' = Some (- 12)"
  "parseInt ''0x1F'' = Some 31"
  "parseInt ''.5'' = None"
  "parseInt [] = None"
  by (simp_all add: parseInt_def isWhiteSpace_def digitValue_def radixDigit_def mathInt_def)

section \<open>The calendar\<close>




lemma thirtyDaysFrom_fixed_offset:
  assumes "\<And>t isUTC. localTZA rt t isUTC = offset"
  shows "thirtyDaysFrom rt now = now + 30 * 86400000"
  by (simp add: thirtyDaysFrom_def utcOf_def localTime_def msPerDay_def assms)

section \<open>The tags and the criteria\<close>

text \<open>
  \<^verbatim>\<open>getBargainTags\<close> repeats the criteria of \<^verbatim>\<open>filterProperties\<close>: given the same clock
  reading, it pushes each label exactly when the criterion of that label holds.
\<close>

lemma getBargainTags_criteria:
  "getBargainTags rt now p =
     (if onMarket2Months rt now p then [''long time no sold''] else [])
   @ (if hasTerminatedListing rt now p then [''reposted''] else [])
   @ (if priceBelowPurchase p then [''selling at a loss''] else [])
   @ (if priceDoublePurchase p then [''selling at huge profit''] else [])
   @ (if quickClose rt now p then [''quicky''] else [])
   @ (if dealFellThrough p then [''last deal fell through''] else [])
   @ (if isEstateSale p then [''estate sell''] else [])"
  unfolding getBargainTags_def onMarket2Months_def hasTerminatedListing_def
    priceBelowPurchase_def priceDoublePurchase_def quickClose_def dealFellThrough_def
    isEstateSale_def Let_def
  by simp

lemma getBargainTags_member:
  "''long time no sold'' \<in> set (getBargainTags rt now p) \<longleftrightarrow> onMarket2Months rt now p"
  "''reposted'' \<in> set (getBargainTags rt now p) \<longleftrightarrow> hasTerminatedListing rt now p"
  "''selling at a loss'' \<in> set (getBargainTags rt now p) \<longleftrightarrow> priceBelowPurchase p"
  "''selling at huge profit'' \<in> set (getBargainTags rt now p) \<longleftrightarrow> priceDoublePurchase p"
  "''quicky'' \<in> set (getBargainTags rt now p) \<longleftrightarrow> quickClose rt now p"
  "''last deal fell through'' \<in> set (getBargainTags rt now p) \<longleftrightarrow> dealFellThrough p"
  "''estate sell'' \<in> set (getBargainTags rt now p) \<longleftrightarrow> isEstateSale p"
  by (simp_all add: getBargainTags_criteria)

lemma quickListing_criteria:
  "quickClose sampleRuntime 1764547200000 quickListing"
  "\<not> quickClose sampleRuntime 1764547200001 quickListing"
  "\<not> onMarket2Months sampleRuntime t quickListing"
  "\<not> hasTerminatedListing sampleRuntime t quickListing"
  "\<not> priceBelowPurchase quickListing"
  "\<not> priceDoublePurchase quickListing"
  "\<not> dealFellThrough quickListing"
  "\<not> isEstateSale quickListing"
  by (simp_all add: quickClose_def onMarket2Months_def hasTerminatedListing_def
      priceBelowPurchase_def priceDoublePurchase_def dealFellThrough_def isEstateSale_def
      quickListing_def emptyListing_def emptyTimestamps_def sampleRuntime_def
      sampleParseDate_def thirtyDaysFrom_def utcOf_def localTime_def msPerDay_def chain_def
      dateLe_def dateGe_def numGe_def truthyNum_def truthyStr_def orNum_def orEmpty_def
      toLowerCase_def)

text \<open>
  C1. A listing should be in the output of the bargain filter if and only if one of the
  seven predicates holds for it, which is so if and only if \<^verbatim>\<open>getBargainTags\<close> returns a
  non-empty list for it; hence every listing in the bargain result set should carry at
  least one tag. The code breaks this between two readings of the clock:
  \<^verbatim>\<open>filterProperties\<close> reads it once before it filters, and \<^verbatim>\<open>getBargainTags\<close> reads it
  again at each call, when the kept listings are formatted. At the failing input below, a
  listing whose possession date is the very instant of the filter's reading, the filter
  keeps the listing, \<^verbatim>\<open>getBargainTags\<close> one millisecond later returns no tag, and the
  endpoint answers a bargain search with a listing whose tag list is empty.
\<close>

theorem bargain_listing_untagged_after_clock_tick:
  "quickListing \<in> set (filterProperties sampleRuntime 1764547200000 [quickListing])
   \<and> getBargainTags sampleRuntime 1764547200001 quickListing = []
   \<and> fst (handleProperties sampleRuntime (tickingClock 1764547200000) listingUpstream
             (Some ''secret'') (Some ''bargain''))
       = \<lparr> code = 200,
           body = PropertiesBody
             [\<lparr> ClassifiedListing.mlsNumber = ''X100'', address = ''Address not available'',
                askingPrice = 0, propertyType = ''Unknown'', thumbnail = [],
                realtorCaLink = ''https://www.realtor.ca/real-estate/X100'', tags = [] \<rparr>] \<rparr>"
proof -
  have f: "filterProperties sampleRuntime (tickingClock 1764547200000 0) [quickListing] = [quickListing]"
    by (simp add: filterProperties_def tickingClock_def quickListing_criteria)
  have t: "getBargainTags sampleRuntime (tickingClock 1764547200000 (Suc 0)) quickListing = []"
    by (simp add: getBargainTags_criteria tickingClock_def quickListing_criteria)
  have fmt: "formatProperty sampleRuntime ''bargain'' (tickingClock 1764547200000 (Suc 0)) quickListing
    = \<lparr> ClassifiedListing.mlsNumber = ''X100'', address = ''Address not available'',
             askingPrice = 0, propertyType = ''Unknown'', thumbnail = [],
             realtorCaLink = ''https://www.realtor.ca/real-estate/X100'', tags = [] \<rparr>"
    unfolding formatProperty_def t
    by (simp add: quickListing_def emptyListing_def formatAddress_def orEmpty_def orStr_def
        orNum_def truthyStr_def truthyNum_def chain_def)
  have "fst (handleProperties sampleRuntime (tickingClock 1764547200000) listingUpstream
             (Some ''secret'') (Some ''bargain''))
       = \<lparr> code = 200,
           body = PropertiesBody
             [\<lparr> ClassifiedListing.mlsNumber = ''X100'', address = ''Address not available'',
                askingPrice = 0, propertyType = ''Unknown'', thumbnail = [],
                realtorCaLink = ''https://www.realtor.ca/real-estate/X100'', tags = [] \<rparr>] \<rparr>"
    by (simp add: handleProperties_def fetchAndFormat_def listingUpstream_def
        extractListings_def getProp_def orDefined_def orValue_def truthy_def isArray_def
        filterBySearchType_def f fmt truthyStr_def orStr_def orEmpty_def Let_def)
  moreover have "quickListing \<in> set (filterProperties sampleRuntime 1764547200000 [quickListing])"
    by (simp add: filterProperties_def quickListing_criteria)
  moreover have "getBargainTags sampleRuntime 1764547200001 quickListing = []"
    by (simp add: getBargainTags_criteria quickListing_criteria)
  ultimately show ?thesis by simp
qed


section \<open>Days on market\<close>

lemma onMarket2Months_spec:
  "onMarket2Months rt now p \<longleftrightarrow> numGe (spec_daysOnMarket rt now p) (Some 60)"
  by (simp add: onMarket2Months_def spec_daysOnMarket_def truthyStr_def orEmpty_def
      split: option.splits jsdate.splits)

text \<open>
  C5. For every raw listing, the tag "long time no sold" is produced if and only if
  \<open>daysOnMarket \<ge> 60\<close>, where \<open>daysOnMarket\<close> is \<^verbatim>\<open>simpleDaysOnMarket\<close> whenever that field
  is present, else the floor of \<open>(now - listDate)\<close> over one day when \<^verbatim>\<open>listDate\<close> is present,
  else 0. An explicit \<^verbatim>\<open>simpleDaysOnMarket\<close> of 0 is the value of \<open>daysOnMarket\<close> whatever
  \<^verbatim>\<open>listDate\<close> is, and gives no tag.
\<close>

theorem long_time_no_sold_iff:
  "(''long time no sold'' \<in> set (getBargainTags rt now p)
      \<longleftrightarrow> numGe (spec_daysOnMarket rt now p) (Some 60))
   \<and> (simpleDaysOnMarket p = Some d \<longrightarrow> spec_daysOnMarket rt now p = Some d)
   \<and> (simpleDaysOnMarket p = Some 0 \<longrightarrow>
        ''long time no sold'' \<notin> set (getBargainTags rt now p))"
  by (simp add: getBargainTags_member onMarket2Months_spec)
     (simp add: spec_daysOnMarket_def numGe_def)

lemma stale_days: "spec_daysOnMarket sampleRuntime 1762128000000 staleListing = Some 94"
  by (simp add: spec_daysOnMarket_def staleListing_def emptyListing_def sampleRuntime_def
      sampleParseDate_def truthyStr_def orEmpty_def)

theorem long_time_no_sold_iff_witness:
  "''long time no sold'' \<in> set (getBargainTags sampleRuntime 1762128000000 staleListing)
   \<and> simpleDaysOnMarket freshListing = Some 0
   \<and> spec_daysOnMarket sampleRuntime 1762128000000 freshListing = Some 0
   \<and> ''long time no sold'' \<notin> set (getBargainTags sampleRuntime 1762128000000 freshListing)"
  using long_time_no_sold_iff [of sampleRuntime 1762128000000 staleListing 0]
    long_time_no_sold_iff [of sampleRuntime 1762128000000 freshListing 0]
  by (simp add: stale_days numGe_def freshListing_def emptyListing_def)

section \<open>The two price tags\<close>

lemma priceBelowPurchase_iff:
  "priceBelowPurchase p \<longleftrightarrow>
    (case (fallbackOriginalPrice p, listPrice p) of
       (Some orig, Some l) \<Rightarrow> orig \<noteq> 0 \<and> l > 0 \<and> l < orig
     | _ \<Rightarrow> False)"
  by (auto simp add: priceBelowPurchase_def fallbackOriginalPrice_def orNum_def truthyNum_def
      numGt_def numLt_def split: option.splits)

lemma priceDoublePurchase_iff:
  "priceDoublePurchase p \<longleftrightarrow>
    (case (fallbackOriginalPrice p, listPrice p) of
       (Some orig, Some l) \<Rightarrow> orig \<noteq> 0 \<and> l > 0 \<and> l \<ge> orig * 2
     | _ \<Rightarrow> False)"
  by (auto simp add: priceDoublePurchase_def fallbackOriginalPrice_def orNum_def truthyNum_def
      numGt_def numGe_def split: option.splits)

text \<open>
  C4 (as amended). For every raw listing, with the original price taken as
  \<^verbatim>\<open>originalPrice || soldPrice\<close> (an \<^verbatim>\<open>originalPrice\<close> that is absent or 0 falls back to
  \<^verbatim>\<open>soldPrice\<close>): the tag "selling at a loss" is produced if and only if that price is
  present and not 0, \<open>listPrice > 0\<close> and \<open>listPrice < originalPrice\<close>; "selling at huge
  profit" is produced under the same preconditions if and only if
  \<open>listPrice \<ge> originalPrice * 2\<close>. The doubling boundary is inclusive, and a list price equal
  to the original price yields neither tag.
\<close>

theorem price_tags_iff:
  "(''selling at a loss'' \<in> set (getBargainTags rt now p) \<longleftrightarrow>
      (case (fallbackOriginalPrice p, listPrice p) of
         (Some orig, Some l) \<Rightarrow> orig \<noteq> 0 \<and> l > 0 \<and> l < orig
       | _ \<Rightarrow> False))
   \<and> (''selling at huge profit'' \<in> set (getBargainTags rt now p) \<longleftrightarrow>
      (case (fallbackOriginalPrice p, listPrice p) of
         (Some orig, Some l) \<Rightarrow> orig \<noteq> 0 \<and> l > 0 \<and> l \<ge> orig * 2
       | _ \<Rightarrow> False))
   \<and> (fallbackOriginalPrice p = Some orig \<and> 0 < orig \<and> listPrice p = Some (orig * 2) \<longrightarrow>
        ''selling at huge profit'' \<in> set (getBargainTags rt now p))
   \<and> (listPrice p = fallbackOriginalPrice p \<longrightarrow>
        ''selling at a loss'' \<notin> set (getBargainTags rt now p)
        \<and> ''selling at huge profit'' \<notin> set (getBargainTags rt now p))"
proof -
  have loss: "''selling at a loss'' \<in> set (getBargainTags rt now p) \<longleftrightarrow>
      (case (fallbackOriginalPrice p, listPrice p) of
         (Some orig, Some l) \<Rightarrow> orig \<noteq> 0 \<and> l > 0 \<and> l < orig
       | _ \<Rightarrow> False)"
    by (simp only: getBargainTags_member priceBelowPurchase_iff)
  have profit: "''selling at huge profit'' \<in> set (getBargainTags rt now p) \<longleftrightarrow>
      (case (fallbackOriginalPrice p, listPrice p) of
         (Some orig, Some l) \<Rightarrow> orig \<noteq> 0 \<and> l > 0 \<and> l \<ge> orig * 2
       | _ \<Rightarrow> False)"
    by (simp only: getBargainTags_member priceDoublePurchase_iff)
  have boundary: "fallbackOriginalPrice p = Some orig \<and> 0 < orig \<and> listPrice p = Some (orig * 2)
      \<longrightarrow> ''selling at huge profit'' \<in> set (getBargainTags rt now p)"
    unfolding profit by simp
  have same: "listPrice p = fallbackOriginalPrice p \<longrightarrow>
      ''selling at a loss'' \<notin> set (getBargainTags rt now p)
      \<and> ''selling at huge profit'' \<notin> set (getBargainTags rt now p)"
    unfolding loss profit by (auto split: option.splits)
  show ?thesis
    using loss profit boundary same by blast
qed

lemma sample_prices:
  "fallbackOriginalPrice zeroOriginalListing = Some 500000"
  "listPrice zeroOriginalListing = Some 400000"
  "fallbackOriginalPrice doubledListing = Some 300000"
  "listPrice doubledListing = Some 600000"
  "fallbackOriginalPrice unchangedListing = Some 450000"
  "listPrice unchangedListing = Some 450000"
  by (simp_all add: fallbackOriginalPrice_def zeroOriginalListing_def doubledListing_def
      unchangedListing_def emptyListing_def)

theorem price_tags_iff_witness:
  "''selling at a loss'' \<in> set (getBargainTags sampleRuntime 1762128000000 zeroOriginalListing)
   \<and> ''selling at huge profit'' \<in> set (getBargainTags sampleRuntime 1762128000000 doubledListing)
   \<and> listPrice unchangedListing = fallbackOriginalPrice unchangedListing
   \<and> ''selling at a loss'' \<notin> set (getBargainTags sampleRuntime 1762128000000 unchangedListing)
   \<and> ''selling at huge profit'' \<notin> set (getBargainTags sampleRuntime 1762128000000 unchangedListing)"
  using price_tags_iff [of sampleRuntime 1762128000000 zeroOriginalListing 500000]
    price_tags_iff [of sampleRuntime 1762128000000 doubledListing 300000]
    price_tags_iff [of sampleRuntime 1762128000000 unchangedListing 450000]
  by (simp add: sample_prices)

text \<open>
  C4 as stated fails: with \<^verbatim>\<open>originalPrice\<close> 0, \<^verbatim>\<open>soldPrice\<close> 500000 and \<^verbatim>\<open>listPrice\<close>
  400000 the code falls back to the sold price and produces "selling at a loss", while
  under \<^verbatim>\<open>originalPrice ?? soldPrice\<close> the original price is 0 and the tag is not due.
\<close>

theorem selling_at_a_loss_zero_original_counterexample:
  "''selling at a loss'' \<in> set (getBargainTags sampleRuntime 1762128000000 zeroOriginalListing)
   \<and> \<not> spec_sellingAtALoss zeroOriginalListing"
proof -
  have "\<not> spec_sellingAtALoss zeroOriginalListing"
    by (simp add: spec_sellingAtALoss_def spec_originalPrice_def zeroOriginalListing_def
        emptyListing_def)
  moreover have "''selling at a loss'' \<in> set (getBargainTags sampleRuntime 1762128000000 zeroOriginalListing)"
    by (simp add: getBargainTags_member priceBelowPurchase_iff sample_prices)
  ultimately show ?thesis by simp
qed

section \<open>The tags and the specification's table\<close>



















section \<open>The school and subway placeholders\<close>

lemma coordinates_truthy:
  "(truthyNum (chain (map_field p) latitude) \<and> truthyNum (chain (map_field p) longitude))
    \<longleftrightarrow> nonZeroCoordinates p"
  by (auto simp add: nonZeroCoordinates_def chain_def truthyNum_def split: option.splits)

text \<open>
  The two filters are the same test, the truthiness of the two coordinates, and read
  nothing else of a listing: no distance, rating or walking time has a part in them.
\<close>

lemma school_subway_truthy_coordinates:
  "filterSchoolProperties listings = filter nonZeroCoordinates listings
   \<and> filterSubwayProperties listings = filter nonZeroCoordinates listings
   \<and> (p \<in> set (filterSchoolProperties listings) \<longleftrightarrow> p \<in> set listings \<and> nonZeroCoordinates p)
   \<and> (p \<in> set (filterSubwayProperties listings) \<longleftrightarrow> p \<in> set listings \<and> nonZeroCoordinates p)"
  by (simp add: filterSchoolProperties_def filterSubwayProperties_def coordinates_truthy)

text \<open>
  C6. The school and the subway search should include a listing if and only if it has both
  \<^verbatim>\<open>map.latitude\<close> and \<^verbatim>\<open>map.longitude\<close> present, a coordinate equal to 0 included, as
  the comments of the two filters say ("return properties with coordinates"). The code
  tests \<^verbatim>\<open>lat && lon\<close>, and 0 is falsy: at the failing input below, a listing with latitude
  0 and longitude -79.4, both coordinates are present and both filters leave the listing
  out, while they keep the listing next to it, whose coordinates are not 0.
\<close>

theorem school_subway_drop_zero_coordinate:
  "spec_hasCoordinates equatorListing \<and> spec_hasCoordinates torontoListing
   \<and> filterSchoolProperties [equatorListing, torontoListing] = [torontoListing]
   \<and> filterSubwayProperties [equatorListing, torontoListing] = [torontoListing]"
  by (simp add: spec_hasCoordinates_def filterSchoolProperties_def filterSubwayProperties_def
      truthyNum_def chain_def equatorListing_def torontoListing_def emptyListing_def)

section \<open>Envelope normalization\<close>

lemma orDefined_find:
  "orDefined (orValue (orValue a b) c) d =
    (case List.find truthy [a, b, c] of Some (Some v) \<Rightarrow> v | _ \<Rightarrow> d)"
  by (auto simp add: orDefined_def orValue_def truthy_def split: option.splits)

text \<open>
  C2 (as amended). For every upstream response value other than \<^verbatim>\<open>null\<close>, envelope
  normalization takes the value of the first of the keys \<^verbatim>\<open>listings\<close>, \<^verbatim>\<open>results\<close>,
  \<^verbatim>\<open>data\<close> that is truthy (an array counts even when it is empty), else the response
  itself when it is a bare array, else the empty array; on \<^verbatim>\<open>null\<close> it throws. A list
  wrapped under \<^verbatim>\<open>listings\<close>, under \<^verbatim>\<open>results\<close>, under \<^verbatim>\<open>data\<close> or sent as the bare
  array is extracted as the same list.
\<close>

theorem extractListings_first_truthy:
  fixes data :: "'a envelope" and xs :: "'a list"
  shows "extractListings rt (JNull :: 'a envelope) = Inl (nullPropertyError rt)
   \<and> (data \<noteq> JNull \<longrightarrow>
      extractListings rt data =
        Inr (case List.find truthy
                    [getProp data ''listings'', getProp data ''results'', getProp data ''data''] of
               Some (Some v) \<Rightarrow> v
             | _ \<Rightarrow> if isArray data then data else JArr []))
   \<and> extractListings rt (JObj [(''listings'', JArr xs)]) = Inr (JArr xs)
   \<and> extractListings rt (JObj [(''results'', JArr xs)]) = Inr (JArr xs)
   \<and> extractListings rt (JObj [(''data'', JArr xs)]) = Inr (JArr xs)
   \<and> extractListings rt (JArr xs) = Inr (JArr xs)"
proof -
  have general: "data \<noteq> JNull \<longrightarrow>
      extractListings rt data =
        Inr (case List.find truthy
                    [getProp data ''listings'', getProp data ''results'', getProp data ''data''] of
               Some (Some v) \<Rightarrow> v
             | _ \<Rightarrow> if isArray data then data else JArr [])"
    unfolding extractListings_def orDefined_find by (cases data) simp_all
  have wrapped: "extractListings rt (JObj [(''listings'', JArr xs)]) = Inr (JArr xs)"
    "extractListings rt (JObj [(''results'', JArr xs)]) = Inr (JArr xs)"
    "extractListings rt (JObj [(''data'', JArr xs)]) = Inr (JArr xs)"
    "extractListings rt (JArr xs) = Inr (JArr xs)"
    by (simp_all add: extractListings_def getProp_def orDefined_def orValue_def truthy_def
        isArray_def)
  have null: "extractListings rt (JNull :: 'a envelope) = Inl (nullPropertyError rt)"
    by (simp add: extractListings_def)
  show ?thesis using null general wrapped by blast
qed

theorem extractListings_first_truthy_witness:
  "countedEnvelope \<noteq> JNull
   \<and> extractListings sampleRuntime countedEnvelope = Inr (JArr [quickListing])
   \<and> extractListings sampleRuntime (JObj [(''data'', JArr [quickListing])])
       = Inr (JArr [quickListing])
   \<and> extractListings sampleRuntime (JArr [quickListing]) = Inr (JArr [quickListing])"
  using extractListings_first_truthy
    [where rt = sampleRuntime and data = countedEnvelope and xs = "[quickListing]"]
  by (simp add: countedEnvelope_def getProp_def truthy_def)

text \<open>
  C2 as stated fails on "the first non-empty match wins": the operands are tested for
  truthiness and an empty array is truthy, so an empty \<^verbatim>\<open>listings\<close> wins over a non-empty
  \<^verbatim>\<open>results\<close>.
\<close>

theorem extractListings_empty_match_counterexample:
  "extractListings sampleRuntime emptyFirstEnvelope = Inr (JArr [])
   \<and> spec_extractListings emptyFirstEnvelope = JArr [quickListing]"
  by (simp add: extractListings_def spec_extractListings_def emptyFirstEnvelope_def getProp_def
      orDefined_def orValue_def truthy_def isArray_def nonEmptyArray_def)

section \<open>Errors of the properties endpoint\<close>

lemma fetchAndFormat_not_ok:
  "\<not> ok response \<Longrightarrow>
    fetchAndFormat rt clock searchType (Responded response) =
      Inl (JsError (''Repliers API error: '' @ numberToString (status response) @ '' - ''
                     @ text_body response)
                   (stackOf rt (''Repliers API error: '' @ numberToString (status response)
                     @ '' - '' @ text_body response)))"
  by (simp add: fetchAndFormat_def Let_def)

text \<open>
  C7. For every request to the properties endpoint made with no API credential configured
  (the key is unset or empty), the result is the configuration-error response, an
  \<^verbatim>\<open>{ error }\<close> body with status 500, no request is sent upstream and the result is the
  same for every upstream provider. Whenever a credential is configured and the upstream
  provider responds non-success, the result is an error response with status 500 whose
  error text carries the upstream status and body, and no list of properties.
\<close>

theorem properties_endpoint_errors:
  "(\<not> truthyStr apiKey \<longrightarrow>
      handleProperties rt clock upstream apiKey queryType =
        (\<lparr> code = 500,
           body = ErrorBody
             ''Repliers API key not configured. Please set REPLIERS_API_KEY in .env file''
             None \<rparr>, [])
      \<and> isErrorResponse (fst (handleProperties rt clock upstream apiKey queryType))
      \<and> handleProperties rt clock upstream apiKey queryType =
          handleProperties rt clock upstream' apiKey queryType)
   \<and> (truthyStr apiKey \<and> upstream (repliersRequest apiKey) = Responded response
        \<and> \<not> ok response \<longrightarrow>
      handleProperties rt clock upstream apiKey queryType =
        (\<lparr> code = 500,
           body = ErrorBody
             (''Repliers API error: '' @ numberToString (status response) @ '' - ''
               @ text_body response)
             (Some (stackOf rt (''Repliers API error: '' @ numberToString (status response)
               @ '' - '' @ text_body response))) \<rparr>,
         [repliersRequest apiKey])
      \<and> isErrorResponse (fst (handleProperties rt clock upstream apiKey queryType)))"
proof -
  have nokey: "\<not> truthyStr apiKey \<longrightarrow>
      handleProperties rt clock u apiKey queryType =
        (\<lparr> code = 500,
           body = ErrorBody
             ''Repliers API key not configured. Please set REPLIERS_API_KEY in .env file''
             None \<rparr>, [])" for u
    by (simp add: handleProperties_def Let_def)
  have failed: "truthyStr apiKey \<and> upstream (repliersRequest apiKey) = Responded response
        \<and> \<not> ok response \<longrightarrow>
      handleProperties rt clock upstream apiKey queryType =
        (\<lparr> code = 500,
           body = ErrorBody
             (''Repliers API error: '' @ numberToString (status response) @ '' - ''
               @ text_body response)
             (Some (stackOf rt (''Repliers API error: '' @ numberToString (status response)
               @ '' - '' @ text_body response))) \<rparr>,
         [repliersRequest apiKey])"
    by (simp add: handleProperties_def Let_def fetchAndFormat_not_ok)
  show ?thesis
    using nokey [of upstream] nokey [of upstream'] failed
    by (auto simp add: isErrorResponse_def)
qed

theorem properties_endpoint_errors_witness:
  "\<not> truthyStr None
   \<and> handleProperties sampleRuntime (tickingClock 1764547200000) listingUpstream None
        (Some ''bargain'')
      = (\<lparr> code = 500,
           body = ErrorBody
             ''Repliers API key not configured. Please set REPLIERS_API_KEY in .env file''
             None \<rparr>, [])
   \<and> truthyStr (Some ''secret'')
   \<and> handleProperties sampleRuntime (tickingClock 1764547200000) unauthorizedUpstream
        (Some ''secret'') (Some ''bargain'')
      = (\<lparr> code = 500,
           body = ErrorBody ''Repliers API error: 401 - Unauthorized''
                    (Some ''Error: Repliers API error: 401 - Unauthorized'') \<rparr>,
         [repliersRequest (Some ''secret'')])"
  using properties_endpoint_errors [of None sampleRuntime "tickingClock 1764547200000"
      listingUpstream "Some ''bargain''" unauthorizedUpstream
      "\<lparr> ok = False, status = 401, text_body = ''Unauthorized'',
         json_body = Inr (JStr ''Unauthorized'') \<rparr>"]
    properties_endpoint_errors [of "Some ''secret''" sampleRuntime "tickingClock 1764547200000"
      unauthorizedUpstream "Some ''bargain''" listingUpstream
      "\<lparr> ok = False, status = 401, text_body = ''Unauthorized'',
         json_body = Inr (JStr ''Unauthorized'') \<rparr>"]
  by (simp add: truthyStr_def unauthorizedUpstream_def digitChar_def sampleRuntime_def)

section \<open>The address formatter\<close>

lemma presentOnly_nonempty: "s \<in> set (presentOnly vs) \<Longrightarrow> s \<noteq> []"
  by (auto simp add: presentOnly_def split: option.splits if_splits)

lemma join_nonempty:
  "parts \<noteq> [] \<Longrightarrow> (\<And>s. s \<in> set parts \<Longrightarrow> s \<noteq> []) \<Longrightarrow> join parts sep \<noteq> []"
  by (induction parts sep rule: join.induct) auto

lemma join_presentOnly_empty: "join (presentOnly vs) sep = [] \<longleftrightarrow> presentOnly vs = []"
proof
  assume "join (presentOnly vs) sep = []"
  then show "presentOnly vs = []"
    using join_nonempty [of "presentOnly vs" sep] presentOnly_nonempty by blast
next
  assume "presentOnly vs = []"
  then show "join (presentOnly vs) sep = []" by simp
qed

lemma streetParts_present:
  "(if truthyStr u
    then pushIfTruthy (pushIfTruthy (pushIfTruthy [] a) b) c @ [''Unit '' @ orEmpty u]
    else pushIfTruthy (pushIfTruthy (pushIfTruthy [] a) b) c)
   = presentOnly [a, b, c] @ List.map (\<lambda>u. ''Unit '' @ u) (presentOnly [u])"
  by (simp add: pushIfTruthy_def presentOnly_def truthyStr_def orEmpty_def
      split: option.splits)

lemma addressParts_present:
  "pushIfTruthy (pushIfTruthy (pushIfTruthy (pushIfTruthy [] a) b) c) d
   = presentOnly [a, b, c, d]"
  by (simp add: pushIfTruthy_def presentOnly_def truthyStr_def orEmpty_def
      split: option.splits)

lemma formatAddress_spec: "formatAddress p = spec_formatAddress (RawListing.address p)"
proof (cases "RawListing.address p")
  case None
  then show ?thesis by (simp add: formatAddress_def spec_formatAddress_def)
next
  case (Some addr)
  then show ?thesis
    unfolding formatAddress_def spec_formatAddress_def Let_def streetParts_present
      addressParts_present
    by (simp add: join_presentOnly_empty)
qed

text \<open>
  C8. For every address sub-record, \<^verbatim>\<open>formatAddress\<close> joins the present components among
  \<^verbatim>\<open>streetNumber\<close>, \<^verbatim>\<open>streetName\<close>, \<^verbatim>\<open>streetSuffix\<close> and "Unit" followed by
  \<^verbatim>\<open>unitNumber\<close> with single spaces into a street line, then joins the present ones among
  the street line, \<^verbatim>\<open>city\<close>, \<^verbatim>\<open>state\<close> and \<^verbatim>\<open>zip\<close> with a comma and a space, and returns
  the placeholder "Address not available" when no component is present or the address
  sub-record itself is absent; the address 12 Main, Toronto, ON of the specification is
  formatted as the specification says.
\<close>

theorem formatAddress_joins_present:
  "formatAddress p = spec_formatAddress (RawListing.address p)
   \<and> (RawListing.address p = None \<longrightarrow> formatAddress p = ''Address not available'')
   \<and> formatAddress mainStreetListing = ''12 Main, Toronto, ON''"
proof -
  have "formatAddress mainStreetListing = ''12 Main, Toronto, ON''"
    by (simp add: formatAddress_def mainStreetListing_def emptyListing_def emptyAddress_def
        pushIfTruthy_def truthyStr_def orEmpty_def)
  moreover have "RawListing.address p = None \<longrightarrow> formatAddress p = ''Address not available''"
    by (simp add: formatAddress_def)
  ultimately show ?thesis
    using formatAddress_spec by simp
qed

theorem formatAddress_joins_present_witness:
  "RawListing.address emptyListing = None
   \<and> formatAddress emptyListing = ''Address not available''
   \<and> spec_formatAddress (RawListing.address mainStreetListing) = ''12 Main, Toronto, ON''"
  using formatAddress_joins_present [of emptyListing]
    formatAddress_joins_present [of mainStreetListing]
  by (simp add: emptyListing_def spec_formatAddress_def)

section \<open>Client-side refinement\<close>

lemma spec_inputNumber_samples:
  "spec_inputNumber ''1e5'' = Some 100000"
  "spec_inputNumber ''400000'' = Some 400000"
  "spec_inputNumber ''-12.5'' = Some (- 12.5)"
  "spec_inputNumber ''12abc'' = None"
  by (simp_all add: spec_inputNumber_def isDecimalDigit_def decimalValue_def digitValue_def
      radixDigit_def mathInt_def Let_def)

text \<open>
  C9 (as amended). For every fetched list and every combination of filter inputs,
  \<^verbatim>\<open>applyFilters\<close> keeps a listing if and only if it satisfies the conjunction of the
  active filters, where the bounds are \<^verbatim>\<open>parseInt\<close> of the texts of the price inputs (the
  leading integer of each text): \<open>askingPrice \<ge> min\<close> when a minimum price is set,
  \<open>askingPrice \<le> max\<close> when a maximum price is set (a listing with no price passes both),
  the property type contains the chosen type as a case-insensitive substring when one is
  chosen, and some tag contains the chosen tag text as a case-insensitive substring when
  one is chosen. The kept listings stay in their order.
\<close>

theorem applyFilters_conjunction:
  "applyFilters st = filter (passesAll st) (properties st)
   \<and> (p \<in> set (applyFilters st) \<longleftrightarrow> p \<in> set (properties st) \<and> passesAll st p)"
proof -
  have "applyFilters st = filter (passesAll st) (properties st)"
    unfolding applyFilters_def Let_def passesAll_def list_ex_iff includesStr_sublist
      numGe_def numLe_def
    by (auto intro!: filter_cong split: option.splits)
  then show ?thesis by simp
qed

lemma sample_passes:
  "\<not> passesAll sampleFilterState belowMinListing"
  "\<not> passesAll sampleFilterState aboveMaxListing"
  "\<not> passesAll sampleFilterState otherTypeListing"
  "\<not> passesAll sampleFilterState otherTagListing"
  "passesAll sampleFilterState detachedHouse"
  "passesAll sampleFilterState unpricedHouse"
  "\<not> passesAll accentFilterState detachedHouse"
  "passesAll accentFilterState chaletListing"
  "passesAll exponentFilterState lowListing"
  by (simp_all add: passesAll_def sampleFilterState_def accentFilterState_def
      exponentFilterState_def parseInt_samples sampleListing_def belowMinListing_def
      aboveMaxListing_def otherTypeListing_def otherTagListing_def detachedHouse_def
      unpricedHouse_def chaletListing_def lowListing_def toLowerCase_def toLowerChar_def
      includesStr_sublist [symmetric])

theorem applyFilters_conjunction_witness:
  "applyFilters sampleFilterState = [detachedHouse, unpricedHouse]
   \<and> applyFilters accentFilterState = [chaletListing]
   \<and> applyFilters exponentFilterState = [lowListing]"
proof -
  have props: "properties sampleFilterState
      = [belowMinListing, aboveMaxListing, otherTypeListing, otherTagListing,
         detachedHouse, unpricedHouse]"
    "properties accentFilterState = [detachedHouse, chaletListing]"
    "properties exponentFilterState = [lowListing]"
    by (simp_all add: sampleFilterState_def accentFilterState_def exponentFilterState_def)
  have "applyFilters sampleFilterState
      = filter (passesAll sampleFilterState) (properties sampleFilterState)"
    using applyFilters_conjunction [of sampleFilterState detachedHouse] by (rule conjunct1)
  then have a: "applyFilters sampleFilterState = [detachedHouse, unpricedHouse]"
    unfolding props by (simp add: sample_passes)
  have "applyFilters accentFilterState
      = filter (passesAll accentFilterState) (properties accentFilterState)"
    using applyFilters_conjunction [of accentFilterState detachedHouse] by (rule conjunct1)
  then have b: "applyFilters accentFilterState = [chaletListing]"
    unfolding props by (simp add: sample_passes)
  have "applyFilters exponentFilterState
      = filter (passesAll exponentFilterState) (properties exponentFilterState)"
    using applyFilters_conjunction [of exponentFilterState lowListing] by (rule conjunct1)
  then have c: "applyFilters exponentFilterState = [lowListing]"
    unfolding props by (simp add: sample_passes)
  show ?thesis using a b c by simp
qed

text \<open>
  C9 as stated fails on the bounds: the text of a number input may carry an exponent or a
  fraction, and \<^verbatim>\<open>parseInt\<close> stops at the first character that is not a digit. With the
  minimum price typed as 1e5, which is 100000, \<^verbatim>\<open>parseInt\<close> gives 1 and a listing at 50000
  is displayed, below the minimum price that is set.
\<close>

theorem applyFilters_exponent_counterexample:
  "applyFilters exponentFilterState = [lowListing]
   \<and> spec_inputNumber (minPrice exponentFilterState) = Some 100000
   \<and> askingPrice lowListing = 50000
   \<and> \<not> spec_passesAll exponentFilterState lowListing"
  by (simp add: applyFilters_def spec_passesAll_def exponentFilterState_def lowListing_def
      sampleListing_def parseInt_samples spec_inputNumber_samples numGe_def)

section \<open>Defaults of the formatted record\<close>

text \<open>
  C10. For every raw listing, each field of the formatted record has a value even when
  the source data is absent: \<^verbatim>\<open>mlsNumber\<close> is the listing's \<^verbatim>\<open>mlsNumber\<close>, else its
  \<^verbatim>\<open>mls\<close>, else the empty string; \<^verbatim>\<open>askingPrice\<close> is \<^verbatim>\<open>listPrice\<close>, else \<^verbatim>\<open>price\<close>,
  else 0; \<^verbatim>\<open>propertyType\<close> is \<^verbatim>\<open>details.propertyType\<close>, else \<^verbatim>\<open>type\<close>, else "Unknown";
  \<^verbatim>\<open>thumbnail\<close> is the empty string when there is no image; and \<^verbatim>\<open>realtorCaLink\<close> is
  always the realtor.ca prefix followed by the MLS number of the record, empty or not. A
  field that is absent, empty or 0 counts as absent.
\<close>

theorem formatProperty_defaults:
  "(\<not> truthyStr (RawListing.mlsNumber p) \<and> \<not> truthyStr (mls p) \<longrightarrow>
      ClassifiedListing.mlsNumber (formatProperty rt searchType now p) = [])
   \<and> (\<not> truthyStr (RawListing.mlsNumber p) \<and> truthyStr (mls p) \<longrightarrow>
      Some (ClassifiedListing.mlsNumber (formatProperty rt searchType now p)) = mls p)
   \<and> (truthyStr (RawListing.mlsNumber p) \<longrightarrow>
      Some (ClassifiedListing.mlsNumber (formatProperty rt searchType now p))
        = RawListing.mlsNumber p)
   \<and> (\<not> truthyNum (listPrice p) \<and> \<not> truthyNum (price p) \<longrightarrow>
      askingPrice (formatProperty rt searchType now p) = 0)
   \<and> (\<not> truthyNum (listPrice p) \<and> truthyNum (price p) \<longrightarrow>
      Some (askingPrice (formatProperty rt searchType now p)) = price p)
   \<and> (truthyNum (listPrice p) \<longrightarrow>
      Some (askingPrice (formatProperty rt searchType now p)) = listPrice p)
   \<and> (\<not> truthyStr (chain (details p) Details.propertyType) \<and> \<not> truthyStr (type_field p) \<longrightarrow>
      ClassifiedListing.propertyType (formatProperty rt searchType now p) = ''Unknown'')
   \<and> (\<not> truthyStr (chain (details p) Details.propertyType) \<and> truthyStr (type_field p) \<longrightarrow>
      Some (ClassifiedListing.propertyType (formatProperty rt searchType now p)) = type_field p)
   \<and> (truthyStr (chain (details p) Details.propertyType) \<longrightarrow>
      Some (ClassifiedListing.propertyType (formatProperty rt searchType now p))
        = chain (details p) Details.propertyType)
   \<and> (images p = None \<or> images p = Some [] \<longrightarrow>
      thumbnail (formatProperty rt searchType now p) = [])
   \<and> realtorCaLink (formatProperty rt searchType now p)
        = ''https://www.realtor.ca/real-estate/''
          @ ClassifiedListing.mlsNumber (formatProperty rt searchType now p)
   \<and> formatProperty rt ''fixer'' now emptyListing
        = \<lparr> ClassifiedListing.mlsNumber = [], address = ''Address not available'',
            askingPrice = 0, propertyType = ''Unknown'', thumbnail = [],
            realtorCaLink = ''https://www.realtor.ca/real-estate/'', tags = [] \<rparr>"
proof -
  have mlsn: "(\<not> truthyStr (RawListing.mlsNumber p) \<and> \<not> truthyStr (mls p) \<longrightarrow>
      ClassifiedListing.mlsNumber (formatProperty rt searchType now p) = [])
   \<and> (\<not> truthyStr (RawListing.mlsNumber p) \<and> truthyStr (mls p) \<longrightarrow>
      Some (ClassifiedListing.mlsNumber (formatProperty rt searchType now p)) = mls p)
   \<and> (truthyStr (RawListing.mlsNumber p) \<longrightarrow>
      Some (ClassifiedListing.mlsNumber (formatProperty rt searchType now p))
        = RawListing.mlsNumber p)"
    by (auto simp add: formatProperty_def Let_def orStr_def orEmpty_def truthyStr_def
        split: option.splits)
  have ask: "(\<not> truthyNum (listPrice p) \<and> \<not> truthyNum (price p) \<longrightarrow>
      askingPrice (formatProperty rt searchType now p) = 0)
   \<and> (\<not> truthyNum (listPrice p) \<and> truthyNum (price p) \<longrightarrow>
      Some (askingPrice (formatProperty rt searchType now p)) = price p)
   \<and> (truthyNum (listPrice p) \<longrightarrow>
      Some (askingPrice (formatProperty rt searchType now p)) = listPrice p)"
    by (auto simp add: formatProperty_def Let_def orNum_def truthyNum_def
        split: option.splits)
  have ptype: "(\<not> truthyStr (chain (details p) Details.propertyType) \<and> \<not> truthyStr (type_field p) \<longrightarrow>
      ClassifiedListing.propertyType (formatProperty rt searchType now p) = ''Unknown'')
   \<and> (\<not> truthyStr (chain (details p) Details.propertyType) \<and> truthyStr (type_field p) \<longrightarrow>
      Some (ClassifiedListing.propertyType (formatProperty rt searchType now p)) = type_field p)
   \<and> (truthyStr (chain (details p) Details.propertyType) \<longrightarrow>
      Some (ClassifiedListing.propertyType (formatProperty rt searchType now p))
        = chain (details p) Details.propertyType)"
    by (auto simp add: formatProperty_def Let_def orStr_def orEmpty_def truthyStr_def
        split: option.splits)
  have thumb: "images p = None \<or> images p = Some [] \<longrightarrow>
      thumbnail (formatProperty rt searchType now p) = []"
    by (auto simp add: formatProperty_def Let_def)
  have link: "realtorCaLink (formatProperty rt searchType now p)
        = ''https://www.realtor.ca/real-estate/''
          @ ClassifiedListing.mlsNumber (formatProperty rt searchType now p)"
    by (simp add: formatProperty_def Let_def)
  have empty: "formatProperty rt ''fixer'' now emptyListing
        = \<lparr> ClassifiedListing.mlsNumber = [], address = ''Address not available'',
            askingPrice = 0, propertyType = ''Unknown'', thumbnail = [],
            realtorCaLink = ''https://www.realtor.ca/real-estate/'', tags = [] \<rparr>"
    by (simp add: formatProperty_def emptyListing_def formatAddress_def orStr_def orNum_def
        orEmpty_def truthyStr_def truthyNum_def chain_def)
  show ?thesis
    using mlsn ask ptype thumb link empty by blast
qed

theorem formatProperty_defaults_witness:
  "\<not> truthyStr (RawListing.mlsNumber fallbackListing) \<and> truthyStr (mls fallbackListing)
   \<and> \<not> truthyNum (listPrice fallbackListing) \<and> truthyNum (price fallbackListing)
   \<and> ClassifiedListing.mlsNumber
        (formatProperty sampleRuntime ''fixer'' 1762128000000 fallbackListing) = ''W9''
   \<and> askingPrice (formatProperty sampleRuntime ''fixer'' 1762128000000 fallbackListing)
        = 250000
   \<and> ClassifiedListing.propertyType
        (formatProperty sampleRuntime ''fixer'' 1762128000000 fallbackListing) = ''Unknown''
   \<and> thumbnail (formatProperty sampleRuntime ''fixer'' 1762128000000 fallbackListing) = []
   \<and> realtorCaLink (formatProperty sampleRuntime ''fixer'' 1762128000000 fallbackListing)
        = ''https://www.realtor.ca/real-estate/W9''"
  using formatProperty_defaults [of fallbackListing sampleRuntime "''fixer''" 1762128000000]
  by (simp add: fallbackListing_def emptyListing_def truthyStr_def truthyNum_def chain_def)

end
